theory Spec2Isabelle
  imports Complex_Main "HOL-Library.AList"
begin

section \<open>Python values, dictionaries and exceptions\<close>

text \<open>
  The orchestrator and its agents exchange Python dictionaries with string keys
  (\<^verbatim>\<open>Dict[str, Any]\<close>). A dictionary is an association list in insertion order;
  \<open>map_of\<close> is the lookup and \<open>AList.update\<close> is the assignment \<^verbatim>\<open>d[k] = v\<close>.
  Floats are real numbers (no statement below depends on rounding); points in time are
  integer ticks and their textual formatting is left out.
\<close>

datatype pyval =
    PNone
  | PBool bool
  | PInt int
  | PFloat real
  | PStr string
  | PList "pyval list"
  | PDict "(string \<times> pyval) list"

type_synonym pydict = "(string \<times> pyval) list"

datatype error =
    KeyError string
  | ValueError string
  | TypeError string
  | AttributeError string
  | IndexError string
  | RuntimeError string
  | NotModelled string

text \<open>
  \<open>RuntimeError\<close> stands for whatever exception a responder raises, with its text.
  \<open>NotModelled\<close> is no Python exception: it marks the one place where the model stops,
  the formatting of a value that is not a string inside an f-string.

  \<^verbatim>\<open>str(e)\<close>: a \<^verbatim>\<open>KeyError\<close> prints the repr of the missing key.
\<close>

fun str_of_error :: "error \<Rightarrow> string" where
  "str_of_error (KeyError k) = [CHR 0x27] @ k @ [CHR 0x27]"
| "str_of_error (ValueError m) = m"
| "str_of_error (TypeError m) = m"
| "str_of_error (AttributeError m) = m"
| "str_of_error (IndexError m) = m"
| "str_of_error (RuntimeError m) = m"
| "str_of_error (NotModelled m) = m"

text \<open>Truth value of a Python object, as \<^verbatim>\<open>if x:\<close> tests it.\<close>

fun truthy :: "pyval \<Rightarrow> bool" where
  "truthy PNone = False"
| "truthy (PBool b) = b"
| "truthy (PInt i) = (i \<noteq> 0)"
| "truthy (PFloat r) = (r \<noteq> 0)"
| "truthy (PStr s) = (s \<noteq> [])"
| "truthy (PList xs) = (xs \<noteq> [])"
| "truthy (PDict d) = (d \<noteq> [])"

text \<open>\<^verbatim>\<open>d.get(k)\<close> with the default \<^verbatim>\<open>None\<close>, and \<^verbatim>\<open>d.get(k, default)\<close>.\<close>

definition dict_get :: "pydict \<Rightarrow> string \<Rightarrow> pyval" where
  "dict_get d k = (case map_of d k of None \<Rightarrow> PNone | Some v \<Rightarrow> v)"

definition dict_get_default :: "pydict \<Rightarrow> string \<Rightarrow> pyval \<Rightarrow> pyval" where
  "dict_get_default d k dflt = (case map_of d k of None \<Rightarrow> dflt | Some v \<Rightarrow> v)"

text \<open>\<^verbatim>\<open>d[k]\<close> raises \<^verbatim>\<open>KeyError\<close> on a missing key.\<close>

definition dict_index :: "pydict \<Rightarrow> string \<Rightarrow> error + pyval" where
  "dict_index d k = (case map_of d k of None \<Rightarrow> Inl (KeyError k) | Some v \<Rightarrow> Inr v)"

text \<open>
  \<^verbatim>\<open>str.lower()\<close> on the ASCII letters; other characters stay as they are (strings are
  byte strings here, Python's case mapping of non-ASCII letters is not modelled).
\<close>

definition lower_char :: "char \<Rightarrow> char" where
  "lower_char c =
     (case map_of (zip ''ABCDEFGHIJKLMNOPQRSTUVWXYZ'' ''abcdefghijklmnopqrstuvwxyz'') c of
        None \<Rightarrow> c | Some d \<Rightarrow> d)"

definition lower :: "string \<Rightarrow> string" where
  "lower s = map lower_char s"

text \<open>\<^verbatim>\<open>k in s\<close> on strings: \<open>k\<close> occurs in \<open>s\<close> as a contiguous substring.\<close>

fun starts_with :: "string \<Rightarrow> string \<Rightarrow> bool" where
  "starts_with s [] = True"
| "starts_with [] (k # ks) = False"
| "starts_with (c # cs) (k # ks) = (c = k \<and> starts_with cs ks)"

fun contains :: "string \<Rightarrow> string \<Rightarrow> bool" where
  "contains [] k = (k = [])"
| "contains (c # cs) k = (starts_with (c # cs) k \<or> contains cs k)"

text \<open>
  Iteration over a value, as \<^verbatim>\<open>list.extend\<close> does it: a list gives its elements, a string
  its characters, a dictionary its keys; anything else is not iterable.
\<close>

fun py_iter :: "pyval \<Rightarrow> error + pyval list" where
  "py_iter (PList xs) = Inr xs"
| "py_iter (PStr s) = Inr (map (\<lambda>c. PStr [c]) s)"
| "py_iter (PDict d) = Inr (map (\<lambda>kv. PStr (fst kv)) d)"
| "py_iter v = Inl (TypeError ''object is not iterable'')"

text \<open>Lists and dictionaries cannot be members of a \<^verbatim>\<open>set\<close>.\<close>

fun hashable :: "pyval \<Rightarrow> bool" where
  "hashable (PList xs) = False"
| "hashable (PDict d) = False"
| "hashable v = True"

section \<open>Configuration, sessions and the context snapshot\<close>

text \<open>
  The two configuration entries the orchestrator reads in its constructor,
  \<^verbatim>\<open>config.get("SAFETY_KEYWORDS", [])\<close> and \<^verbatim>\<open>config.get("MAX_CONVERSATION_TURNS", 50)\<close>,
  and the one the dispatch agent reads, \<^verbatim>\<open>config.get("REAL_DISPATCH_ENABLED", False)\<close>.
\<close>

record config =
  SAFETY_KEYWORDS :: "string list"
  MAX_CONVERSATION_TURNS :: int
  REAL_DISPATCH_ENABLED :: bool

text \<open>The values of \<^verbatim>\<open>config/config.py\<close>.\<close>

definition Config :: config where
  "Config = \<lparr>SAFETY_KEYWORDS = [''suicide'', ''self-harm'', ''overdose''],
             MAX_CONVERSATION_TURNS = 50,
             REAL_DISPATCH_ENABLED = False\<rparr>"

text \<open>
  The session dictionary of \<^verbatim>\<open>start_session\<close>: its keys are fixed, so it is a record.
  Fields that the code fills from agent responses hold Python values. The order of
  \<^verbatim>\<open>list(set(...))\<close> is unspecified in Python; \<open>critical_keywords\<close> keeps the order of
  \<open>remdups\<close> and nothing below depends on it.
\<close>

record session =
  session_id :: string
  start_time :: int
  caller_phone :: pyval
  latitude :: pyval
  longitude :: pyval
  address :: pyval
  turn_number :: int
  conversation_history :: "pydict list"
  questions_asked :: "string list"
  urgency_level :: pyval
  emergency_type :: pyval
  critical_keywords :: "pyval list"
  triage_complete :: bool
  dispatch_attempted :: bool
  dispatch_successful :: bool
  empathy_score :: pyval
  sentiment_scores :: "real list"
  response_times :: "real list"
  agent_activations :: "(int \<times> string list) list"
  safety_triggers :: int
  profanity_detected :: bool
  loop_breaker_active :: bool
  end_time :: "int option"

text \<open>\<^verbatim>\<open>self.active_sessions\<close>\<close>

type_synonym store = "string \<rightharpoonup> session"

text \<open>
  The dictionary of \<^verbatim>\<open>_build_context\<close>. Its fourteen keys are always present, so an
  agent's \<^verbatim>\<open>context.get(key, default)\<close> on one of them never takes the default.
  \<open>ctx_sentiment_score\<close> is the key \<^verbatim>\<open>"sentiment_score"\<close> that the empathy agent reads:
  \<^verbatim>\<open>_build_context\<close> never sets it (\<open>None\<close>), another caller of the agent may.
\<close>

record ctx =
  ctx_session_id :: string
  ctx_turn_number :: int
  ctx_message :: string
  ctx_conversation_history :: "pydict list"
  ctx_questions_asked :: "string list"
  ctx_urgency_level :: pyval
  ctx_emergency_type :: pyval
  ctx_critical_keywords :: "pyval list"
  ctx_triage_complete :: bool
  ctx_empathy_score :: pyval
  ctx_address :: pyval
  ctx_latitude :: pyval
  ctx_longitude :: pyval
  ctx_caller_phone :: pyval
  ctx_sentiment_score :: "real option"

definition build_context :: "session \<Rightarrow> string \<Rightarrow> ctx" where
  "build_context s current_message =
     \<lparr>ctx_session_id = session_id s,
      ctx_turn_number = turn_number s,
      ctx_message = current_message,
      ctx_conversation_history = conversation_history s,
      ctx_questions_asked = questions_asked s,
      ctx_urgency_level = urgency_level s,
      ctx_emergency_type = emergency_type s,
      ctx_critical_keywords = critical_keywords s,
      ctx_triage_complete = triage_complete s,
      ctx_empathy_score = empathy_score s,
      ctx_address = address s,
      ctx_latitude = latitude s,
      ctx_longitude = longitude s,
      ctx_caller_phone = caller_phone s,
      ctx_sentiment_score = None\<rparr>"

section \<open>Session lifecycle\<close>

text \<open>
  \<^verbatim>\<open>start_session\<close>; the identifier \<^verbatim>\<open>str(uuid.uuid4())\<close> and the clock
  \<^verbatim>\<open>datetime.utcnow()\<close> are inputs. An empty \<^verbatim>\<open>caller_info\<close> is falsy, like \<^verbatim>\<open>None\<close>.
\<close>

definition caller_field :: "pydict option \<Rightarrow> string \<Rightarrow> pyval" where
  "caller_field caller_info k =
     (case caller_info of
        None \<Rightarrow> PNone
      | Some d \<Rightarrow> (if d \<noteq> [] then dict_get d k else PNone))"

definition session_data :: "string \<Rightarrow> int \<Rightarrow> pydict option \<Rightarrow> session" where
  "session_data sid now caller_info =
     \<lparr>session_id = sid,
      start_time = now,
      caller_phone = caller_field caller_info ''phone'',
      latitude = caller_field caller_info ''latitude'',
      longitude = caller_field caller_info ''longitude'',
      address = caller_field caller_info ''address'',
      turn_number = 0,
      conversation_history = [],
      questions_asked = [],
      urgency_level = PStr ''unknown'',
      emergency_type = PStr ''unknown'',
      critical_keywords = [],
      triage_complete = False,
      dispatch_attempted = False,
      dispatch_successful = False,
      empathy_score = PFloat 0,
      sentiment_scores = [],
      response_times = [],
      agent_activations = [],
      safety_triggers = 0,
      profanity_detected = False,
      loop_breaker_active = False,
      end_time = None\<rparr>"

definition start_session :: "string \<Rightarrow> int \<Rightarrow> store \<Rightarrow> pydict option \<Rightarrow> string \<times> store" where
  "start_session sid now active_sessions caller_info =
     (sid, active_sessions(sid \<mapsto> session_data sid now caller_info))"

definition not_found :: "string \<Rightarrow> error" where
  "not_found sid = ValueError (''Session '' @ sid @ '' not found'')"

definition get_session_status :: "int \<Rightarrow> store \<Rightarrow> string \<Rightarrow> error + pydict" where
  "get_session_status now active_sessions sid =
     (case active_sessions sid of
        None \<Rightarrow> Inl (not_found sid)
      | Some s \<Rightarrow> Inr
          [(''session_id'', PStr sid),
           (''start_time'', PInt (start_time s)),
           (''duration'', PInt (now - start_time s)),
           (''turn_number'', PInt (turn_number s)),
           (''urgency_level'', urgency_level s),
           (''emergency_type'', emergency_type s),
           (''triage_complete'', PBool (triage_complete s)),
           (''dispatch_attempted'', PBool (dispatch_attempted s)),
           (''dispatch_successful'', PBool (dispatch_successful s)),
           (''empathy_score'', empathy_score s),
           (''avg_response_time'',
              (if response_times s \<noteq> []
               then PFloat (sum_list (response_times s) / real (length (response_times s)))
               else PInt 0))])"

definition end_session :: "int \<Rightarrow> store \<Rightarrow> string \<Rightarrow> (error + pydict) \<times> store" where
  "end_session now active_sessions sid =
     (case active_sessions sid of
        None \<Rightarrow> (Inl (not_found sid), active_sessions)
      | Some s \<Rightarrow>
          (let s' = s\<lparr>end_time := Some now\<rparr>;
               sessions' = active_sessions(sid \<mapsto> s')
           in case get_session_status now sessions' sid of
                Inl e \<Rightarrow> (Inl e, sessions')
              | Inr summary \<Rightarrow>
                  (Inr (AList.update ''total_turns'' (PInt (turn_number s'))
                         (AList.update ''total_duration'' (PInt (now - start_time s')) summary)),
                   sessions'(sid := None))))"

section \<open>Safety gate\<close>

definition safety_outcome :: "string list \<Rightarrow> pydict" where
  "safety_outcome triggers =
     [(''message'', PStr (''I'm very concerned about what you've shared. Please call the National Suicide Prevention Lifeline at 988 or stay on the line while I connect you to emergency services immediately.'')),
      (''agent_type'', PStr ''safety''),
      (''confidence'', PFloat 1),
      (''urgency_level'', PStr ''critical''),
      (''metadata'', PDict
         [(''blocked'', PBool True),
          (''safety_trigger'', PBool True),
          (''trigger_keywords'', PList (map PStr triggers))])]"

definition loop_breaker_outcome :: pydict where
  "loop_breaker_outcome =
     [(''message'', PStr (''We've been talking for a while. Let me connect you directly with emergency services to ensure you get immediate help.'')),
      (''agent_type'', PStr ''safety''),
      (''confidence'', PFloat 1),
      (''urgency_level'', PStr ''high''),
      (''metadata'', PDict
         [(''blocked'', PBool True),
          (''loop_breaker'', PBool True)])]"

definition perform_safety_checks :: "config \<Rightarrow> string \<Rightarrow> session \<Rightarrow> pydict \<times> session" where
  "perform_safety_checks cfg message s =
     (let message_lower = lower message;
          triggers = filter (\<lambda>keyword. contains message_lower (lower keyword)) (SAFETY_KEYWORDS cfg);
          s1 = (if triggers \<noteq> [] then s\<lparr>safety_triggers := safety_triggers s + 1\<rparr> else s)
      in if triggers \<noteq> [] \<and> (''suicide'' \<in> set triggers \<or> ''self-harm'' \<in> set triggers)
         then (safety_outcome triggers, s1)
         else if turn_number s1 \<ge> MAX_CONVERSATION_TURNS cfg
         then (loop_breaker_outcome, s1\<lparr>loop_breaker_active := True\<rparr>)
         else ([(''blocked'', PBool False)], s1))"

section \<open>Responders\<close>

text \<open>
  A responder is an object with \<^verbatim>\<open>should_activate(context)\<close> and
  \<^verbatim>\<open>process_message(message, context)\<close>; the second returns a dictionary or raises
  (\<open>Inl\<close>). The orchestrator holds four of them.
\<close>

record agent =
  agent_should_activate :: "ctx \<Rightarrow> bool"
  agent_process_message :: "string \<Rightarrow> ctx \<Rightarrow> error + pydict"

record agents =
  empathy_agent :: agent
  triage_agent :: agent
  guidance_agent :: agent
  dispatch_agent :: agent

text \<open>The agent behind a responder name, for the statements below.\<close>

definition agent_named :: "agents \<Rightarrow> string \<Rightarrow> agent" where
  "agent_named ags agent_name =
     (if agent_name = ''empathy'' then empathy_agent ags
      else if agent_name = ''triage'' then triage_agent ags
      else if agent_name = ''guidance'' then guidance_agent ags
      else dispatch_agent ags)"

text \<open>\<^verbatim>\<open>agent_responses\<close>: responder name to response dictionary.\<close>

type_synonym responses = "(string \<times> pydict) list"

section \<open>Activation policy\<close>

definition determine_active_agents :: "agents \<Rightarrow> string \<Rightarrow> session \<Rightarrow> string list \<times> session" where
  "determine_active_agents ags message s =
     (let context = build_context s message;
          active_agents =
            (if agent_should_activate (empathy_agent ags) context then [''empathy''] else []) @
            (if agent_should_activate (triage_agent ags) context then [''triage''] else []) @
            (if agent_should_activate (guidance_agent ags) context then [''guidance''] else []) @
            (if agent_should_activate (dispatch_agent ags) context then [''dispatch''] else []);
          active_agents' =
            (if active_agents = []
             then (if turn_number s = 1 then [''empathy'', ''triage''] else [''triage''])
             else active_agents)
      in (active_agents',
          s\<lparr>agent_activations := agent_activations s @ [(turn_number s, active_agents')]\<rparr>))"

section \<open>Fan-out and fan-in\<close>

text \<open>The placeholder stored for a responder whose call raised.\<close>

definition error_response :: "string \<Rightarrow> error \<Rightarrow> pydict" where
  "error_response agent_name e =
     [(''message'', PStr (''Error in '' @ agent_name @ '' processing'')),
      (''agent_type'', PStr agent_name),
      (''confidence'', PFloat (1 / 10)),
      (''metadata'', PDict [(''error'', PStr (str_of_error e))])]"

text \<open>
  The loop over \<open>tasks\<close>: each task is a responder name with the result of awaiting its
  coroutine. Responders only read the context, so the result does not depend on when the
  coroutine runs.
\<close>

fun execute_tasks :: "(string \<times> (error + pydict)) list \<Rightarrow> responses \<Rightarrow> responses" where
  "execute_tasks [] agent_responses = agent_responses"
| "execute_tasks ((agent_name, task) # tasks) agent_responses =
     execute_tasks tasks
       (case task of
          Inr response \<Rightarrow> AList.update agent_name response agent_responses
        | Inl e \<Rightarrow> AList.update agent_name (error_response agent_name e) agent_responses)"

definition process_through_agents :: "agents \<Rightarrow> string \<Rightarrow> session \<Rightarrow> string list \<Rightarrow> responses" where
  "process_through_agents ags message s active_agents =
     (let context = build_context s message;
          tasks =
            (if ''empathy'' \<in> set active_agents
             then [(''empathy'', agent_process_message (empathy_agent ags) message context)] else []) @
            (if ''triage'' \<in> set active_agents
             then [(''triage'', agent_process_message (triage_agent ags) message context)] else []) @
            (if ''guidance'' \<in> set active_agents
             then [(''guidance'', agent_process_message (guidance_agent ags) message context)] else []) @
            (if ''dispatch'' \<in> set active_agents
             then [(''dispatch'', agent_process_message (dispatch_agent ags) message context)] else [])
      in execute_tasks tasks [])"

section \<open>Response merge\<close>

definition generic_prompt :: pydict where
  "generic_prompt =
     [(''message'', PStr (''I'm here to help. Can you tell me about the emergency?'')),
      (''agent_type'', PStr ''system''),
      (''confidence'', PFloat (1 / 2)),
      (''urgency_level'', PStr ''unknown'')]"

definition priority_order :: "string list" where
  "priority_order = [''dispatch'', ''guidance'', ''triage'', ''empathy'']"

text \<open>
  The highest-priority responder with a response; when none of the four names is a key,
  the first key of the dictionary.
\<close>

definition primary_agent :: "responses \<Rightarrow> string" where
  "primary_agent agent_responses =
     (case find (\<lambda>agent_type. map_of agent_responses agent_type \<noteq> None) priority_order of
        Some agent_type \<Rightarrow> agent_type
      | None \<Rightarrow> fst (hd agent_responses))"

text \<open>The f-string \<^verbatim>\<open>f"{a} {b}"\<close> on two strings.\<close>

fun format_pair :: "pyval \<Rightarrow> pyval \<Rightarrow> error + string" where
  "format_pair (PStr a) (PStr b) = Inr (a @ '' '' @ b)"
| "format_pair a b = Inl (NotModelled ''format of a value that is not a str'')"

text \<open>
  \<^verbatim>\<open>_combine_agent_responses\<close>. Python changes the primary response in place, so the
  function returns the final response together with \<open>agent_responses\<close> holding the changed
  primary response. In Python the entry of the primary responder inside \<^verbatim>\<open>all_agents\<close> is
  the very metadata dictionary that receives \<^verbatim>\<open>all_agents\<close> (a cycle); the model stores
  the metadata as it was before that assignment. The \<^verbatim>\<open>session\<close> argument is unused in the
  source and left out.
\<close>

definition combine_agent_responses :: "responses \<Rightarrow> error + (pydict \<times> responses)" where
  "combine_agent_responses agent_responses =
     (if agent_responses = [] then Inr (generic_prompt, agent_responses)
      else
        let primary = primary_agent agent_responses;
            primary_response = the (map_of agent_responses primary);
            prepended =
              (if primary \<noteq> ''empathy'' \<and> map_of agent_responses ''empathy'' \<noteq> None
               then
                 (case dict_index (the (map_of agent_responses ''empathy'')) ''message'' of
                    Inl e \<Rightarrow> Inl e
                  | Inr empathy_message \<Rightarrow>
                      (case dict_index primary_response ''message'' of
                         Inl e \<Rightarrow> Inl e
                       | Inr primary_message \<Rightarrow>
                           (case format_pair empathy_message primary_message of
                              Inl e \<Rightarrow> Inl e
                            | Inr m \<Rightarrow> Inr (AList.update ''message'' (PStr m) primary_response))))
               else Inr primary_response)
        in case prepended of
             Inl e \<Rightarrow> Inl e
           | Inr primary_response' \<Rightarrow>
               (let combined_metadata =
                      map (\<lambda>(agent_type, response).
                             (agent_type @ ''_metadata'', dict_get_default response ''metadata'' (PDict [])))
                          agent_responses
                in case dict_index primary_response' ''metadata'' of
                     Inl e \<Rightarrow> Inl e
                   | Inr (PDict metadata) \<Rightarrow>
                       (let final_response =
                              AList.update ''metadata''
                                (PDict (AList.update ''all_agents'' (PDict combined_metadata) metadata))
                                primary_response'
                        in Inr (final_response, AList.update primary final_response agent_responses))
                   | Inr other \<Rightarrow> Inl (TypeError ''object does not support item assignment'')))"

section \<open>Session state update\<close>

text \<open>
  \<^verbatim>\<open>_update_session_state\<close> changes the session in place and may raise in the middle;
  the model returns the exception, if any, with the session as it is at that point.
  The three parts are the three \<^verbatim>\<open>if "..." in agent_responses\<close> blocks, in order; the
  four steps of the triage block are its four \<^verbatim>\<open>if\<close> statements.
\<close>

definition set_urgency :: "pydict \<Rightarrow> session \<Rightarrow> error + session" where
  "set_urgency triage_response s =
     (if dict_get triage_response ''urgency_level'' \<noteq> PStr ''unknown''
      then (case dict_index triage_response ''urgency_level'' of
              Inl e \<Rightarrow> Inl e
            | Inr u \<Rightarrow> Inr (s\<lparr>urgency_level := u\<rparr>))
      else Inr s)"

definition set_emergency_type :: "pydict \<Rightarrow> session \<Rightarrow> session" where
  "set_emergency_type md s =
     (if truthy (dict_get md ''emergency_type'')
      then s\<lparr>emergency_type := dict_get md ''emergency_type''\<rparr>
      else s)"

definition extend_critical_keywords :: "pydict \<Rightarrow> session \<Rightarrow> error option \<times> session" where
  "extend_critical_keywords md s =
     (if truthy (dict_get md ''critical_keywords'')
      then (case py_iter (dict_get md ''critical_keywords'') of
              Inl e \<Rightarrow> (Some e, s)
            | Inr kws \<Rightarrow>
                (let s1 = s\<lparr>critical_keywords := critical_keywords s @ kws\<rparr>
                 in if list_all hashable (critical_keywords s1)
                    then (None, s1\<lparr>critical_keywords := remdups (critical_keywords s1)\<rparr>)
                    else (Some (TypeError ''unhashable type''), s1)))
      else (None, s))"

definition set_triage_complete :: "pydict \<Rightarrow> session \<Rightarrow> session" where
  "set_triage_complete md s =
     (if truthy (dict_get md ''triage_complete'') then s\<lparr>triage_complete := True\<rparr> else s)"

definition update_from_triage :: "responses \<Rightarrow> session \<Rightarrow> error option \<times> session" where
  "update_from_triage agent_responses s =
     (case map_of agent_responses ''triage'' of
        None \<Rightarrow> (None, s)
      | Some triage_response \<Rightarrow>
          (let metadata = dict_get_default triage_response ''metadata'' (PDict [])
           in case set_urgency triage_response s of
                Inl e \<Rightarrow> (Some e, s)
              | Inr s1 \<Rightarrow>
                  (case metadata of
                     PDict md \<Rightarrow>
                       (case extend_critical_keywords md (set_emergency_type md s1) of
                          (Some e, s3) \<Rightarrow> (Some e, s3)
                        | (None, s3) \<Rightarrow> (None, set_triage_complete md s3))
                   | other \<Rightarrow> (Some (AttributeError ''object has no attribute get''), s1))))"

definition update_from_dispatch :: "responses \<Rightarrow> session \<Rightarrow> error option \<times> session" where
  "update_from_dispatch agent_responses s =
     (case map_of agent_responses ''dispatch'' of
        None \<Rightarrow> (None, s)
      | Some dispatch_response \<Rightarrow>
          (case dict_get_default dispatch_response ''metadata'' (PDict []) of
             PDict md \<Rightarrow>
               (let s1 = (if truthy (dict_get md ''dispatch_attempted'')
                          then s\<lparr>dispatch_attempted := True\<rparr> else s)
                in (None, if truthy (dict_get md ''dispatch_successful'')
                          then s1\<lparr>dispatch_successful := True\<rparr> else s1))
           | other \<Rightarrow> (Some (AttributeError ''object has no attribute get''), s)))"

definition update_from_empathy :: "responses \<Rightarrow> session \<Rightarrow> error option \<times> session" where
  "update_from_empathy agent_responses s =
     (case map_of agent_responses ''empathy'' of
        None \<Rightarrow> (None, s)
      | Some empathy_response \<Rightarrow>
          (case dict_get_default empathy_response ''metadata'' (PDict []) of
             PDict md \<Rightarrow>
               (None, if truthy (dict_get md ''empathy_score'')
                      then s\<lparr>empathy_score := dict_get md ''empathy_score''\<rparr> else s)
           | other \<Rightarrow> (Some (AttributeError ''object has no attribute get''), s)))"

definition update_session_state :: "session \<Rightarrow> responses \<Rightarrow> error option \<times> session" where
  "update_session_state s agent_responses =
     (case update_from_triage agent_responses s of
        (Some e, s1) \<Rightarrow> (Some e, s1)
      | (None, s1) \<Rightarrow>
          (case update_from_dispatch agent_responses s1 of
             (Some e, s2) \<Rightarrow> (Some e, s2)
           | (None, s2) \<Rightarrow> update_from_empathy agent_responses s2))"

section \<open>Processing one turn\<close>

text \<open>\<^verbatim>\<open>session["conversation_history"][-1][key] = value\<close>\<close>

definition set_last_turn :: "string \<Rightarrow> pyval \<Rightarrow> session \<Rightarrow> error + session" where
  "set_last_turn key v s =
     (if conversation_history s = [] then Inl (IndexError ''list index out of range'')
      else Inr (s\<lparr>conversation_history :=
                    butlast (conversation_history s) @
                      [AList.update key v (last (conversation_history s))]\<rparr>))"

text \<open>The turn record appended to the conversation history.\<close>

definition turn_record :: "int \<Rightarrow> string \<Rightarrow> int \<Rightarrow> pydict" where
  "turn_record turn user_message now =
     [(''turn'', PInt turn),
      (''user_message'', PStr user_message),
      (''timestamp'', PInt now)]"

text \<open>
  The start of an unblocked turn: the turn counter goes up and the turn record, numbered
  with the new count, is appended.
\<close>

definition begin_turn :: "int \<Rightarrow> string \<Rightarrow> session \<Rightarrow> session" where
  "begin_turn now user_message s =
     (let s1 = s\<lparr>turn_number := turn_number s + 1\<rparr>
      in s1\<lparr>conversation_history := conversation_history s1 @
                 (turn_record (turn_number s1) user_message now # [])\<rparr>)"

text \<open>The response of the \<^verbatim>\<open>except Exception\<close> handler of \<^verbatim>\<open>process_message\<close>.\<close>

definition technical_difficulties :: "error \<Rightarrow> pydict" where
  "technical_difficulties e =
     [(''message'', PStr (''I'm experiencing technical difficulties. Please call 911 directly if this is an emergency.'')),
      (''agent_type'', PStr ''system''),
      (''confidence'', PFloat (1 / 10)),
      (''urgency_level'', PStr ''unknown''),
      (''metadata'', PDict [(''error'', PStr (str_of_error e))])]"

text \<open>
  The end of the \<^verbatim>\<open>try\<close> block, after the merge: the reply is written into the last
  turn record, the processing time is logged and the session state is updated.
\<close>

definition finish_turn ::
  "real \<Rightarrow> pydict \<Rightarrow> responses \<Rightarrow> session \<Rightarrow> (error + pydict) \<times> session" where
  "finish_turn processing_time final_response agent_responses s =
     (case dict_index final_response ''message'' of
        Inl e \<Rightarrow> (Inl e, s)
      | Inr m \<Rightarrow>
          (case set_last_turn ''agent_response'' m s of
             Inl e \<Rightarrow> (Inl e, s)
           | Inr s1 \<Rightarrow>
               (case dict_index final_response ''agent_type'' of
                  Inl e \<Rightarrow> (Inl e, s1)
                | Inr t \<Rightarrow>
                    (case set_last_turn ''agent_type'' t s1 of
                       Inl e \<Rightarrow> (Inl e, s1)
                     | Inr s2 \<Rightarrow>
                         (let s3 = s2\<lparr>response_times := response_times s2 @ [processing_time]\<rparr>
                          in case update_session_state s3 agent_responses of
                               (Some e, s4) \<Rightarrow> (Inl e, s4)
                             | (None, s4) \<Rightarrow> (Inr final_response, s4))))))"

text \<open>
  The body of the \<^verbatim>\<open>try\<close> block of \<^verbatim>\<open>process_message\<close>: \<open>Inl\<close> is an exception that
  leaves the block, with the session as changed so far. \<open>now\<close> is the clock read for the
  turn record and \<open>processing_time\<close> the measured duration of the turn.
\<close>

definition process_message_try ::
  "config \<Rightarrow> agents \<Rightarrow> int \<Rightarrow> real \<Rightarrow> session \<Rightarrow> string \<Rightarrow> (error + pydict) \<times> session" where
  "process_message_try cfg ags now processing_time s user_message =
     (case perform_safety_checks cfg user_message s of (safety_check, s0) \<Rightarrow>
        (case dict_index safety_check ''blocked'' of
           Inl e \<Rightarrow> (Inl e, s0)
         | Inr blocked \<Rightarrow>
             if truthy blocked then (Inr safety_check, s0)
             else
               (case determine_active_agents ags user_message (begin_turn now user_message s0) of
                  (active_agents, s3) \<Rightarrow>
                    (let agent_responses = process_through_agents ags user_message s3 active_agents
                     in case combine_agent_responses agent_responses of
                          Inl e \<Rightarrow> (Inl e, s3)
                        | Inr (final_response, agent_responses') \<Rightarrow>
                            finish_turn processing_time final_response agent_responses' s3))))"

text \<open>
  \<^verbatim>\<open>process_message\<close>: \<^verbatim>\<open>ValueError\<close> for an unknown session, otherwise the \<^verbatim>\<open>try\<close>
  block with every exception turned into the fixed response. The session object is
  changed in place, so the store holds whatever the block did to it.
\<close>

definition process_message ::
  "config \<Rightarrow> agents \<Rightarrow> int \<Rightarrow> real \<Rightarrow> store \<Rightarrow> string \<Rightarrow> string \<Rightarrow> (error + pydict) \<times> store" where
  "process_message cfg ags now processing_time active_sessions sid user_message =
     (case active_sessions sid of
        None \<Rightarrow> (Inl (not_found sid), active_sessions)
      | Some s \<Rightarrow>
          (case process_message_try cfg ags now processing_time s user_message of
             (Inr response, s') \<Rightarrow> (Inr response, active_sessions(sid \<mapsto> s'))
           | (Inl e, s') \<Rightarrow> (Inr (technical_difficulties e), active_sessions(sid \<mapsto> s'))))"

section \<open>The four agents of the repository\<close>

text \<open>
  What an agent takes from outside the program during one call: the VADER sentiment
  analyser (negative, positive and compound score of a text), the random generator behind
  \<^verbatim>\<open>random.choice\<close>, the clocks, the reference number of the mock dispatch (built from
  the date and a hash), and an exception raised inside the agent's own \<^verbatim>\<open>try\<close> block, if
  any. Every agent catches such an exception itself and answers with its fallback.
\<close>

record external =
  polarity_scores :: "string \<Rightarrow> real \<times> real \<times> real"
  random_index :: nat
  fault :: "string \<Rightarrow> error option"
  agent_response_time :: real
  utcnow :: int
  reference_id :: string
  mock_dispatch_fault :: "error option"

text \<open>\<^verbatim>\<open>AgentResponse(...).to_dict()\<close>\<close>

definition AgentResponse_to_dict ::
  "string \<Rightarrow> string \<Rightarrow> real \<Rightarrow> pyval \<Rightarrow> pydict \<Rightarrow> int \<Rightarrow> pydict" where
  "AgentResponse_to_dict message agent_type confidence urgency metadata timestamp =
     [(''message'', PStr message),
      (''agent_type'', PStr agent_type),
      (''confidence'', PFloat confidence),
      (''urgency_level'', urgency),
      (''metadata'', PDict metadata),
      (''timestamp'', PInt timestamp)]"

definition random_choice :: "external \<Rightarrow> string list \<Rightarrow> string" where
  "random_choice ext xs = xs ! (random_index ext mod length xs)"

text \<open>\<^verbatim>\<open>BaseAgent.extract_keywords\<close>\<close>

definition extract_keywords :: "string \<Rightarrow> string list \<Rightarrow> string list" where
  "extract_keywords text keyword_list =
     filter (\<lambda>keyword. contains (lower text) (lower keyword)) keyword_list"

subsection \<open>Empathy agent\<close>

definition calming_phrases :: "string list" where
  "calming_phrases =
     [''I understand this is scary; I'm here to help you.'',
      ''You're doing great by calling for help. I'm going to guide you through this.'',
      ''I know this is overwhelming, but help is on the way. Stay with me.'',
      ''Take a deep breath. You've done the right thing by calling.'',
      ''I can hear that you're frightened. That's completely normal. Let me help you.'',
      ''You're being very brave. I'm here to support you through this.'',
      ''I understand you're in a difficult situation. We're going to get through this together.'',
      ''Stay calm. You're not alone. Help is coming.'']"

definition validation_phrases :: "string list" where
  "validation_phrases =
     [''That must be very frightening for you.'',
      ''I can understand why you're worried.'',
      ''Your feelings are completely valid.'',
      ''Anyone would feel scared in this situation.'',
      ''You're handling this as well as anyone could.'',
      ''It's natural to feel overwhelmed right now.'']"

definition reassurance_phrases :: "string list" where
  "reassurance_phrases =
     [''Help is on the way.'',
      ''You're going to be okay.'',
      ''Medical professionals will be there soon.'',
      ''You've taken the right step by calling.'',
      ''Emergency responders are being dispatched now.'',
      ''Stay strong - help is coming.'']"

definition classify_emotional_state :: "real \<times> real \<times> real \<Rightarrow> string" where
  "classify_emotional_state scores =
     (case scores of (negative, positive, compound) \<Rightarrow>
        if negative > 6 / 10 then ''highly_distressed''
        else if negative > 3 / 10 then ''distressed''
        else if compound < - (3 / 10) then ''anxious''
        else if positive > 5 / 10 then ''calm''
        else ''neutral'')"

definition generate_empathic_response ::
  "external \<Rightarrow> string \<Rightarrow> string \<Rightarrow> real \<Rightarrow> ctx \<Rightarrow> string" where
  "generate_empathic_response ext message emotional_state sentiment_score context =
     (let is_first_contact = (ctx_turn_number context = 0);
          base_response =
            (if is_first_contact then random_choice ext calming_phrases
             else if emotional_state \<in> set [''highly_distressed'', ''distressed'']
               then random_choice ext calming_phrases
             else if emotional_state = ''anxious'' then random_choice ext validation_phrases
             else random_choice ext reassurance_phrases);
          base_response1 =
            (if contains (lower message) ''pain''
               then base_response @ '' I know you're in pain right now.''
             else if contains (lower message) ''scared'' \<or> contains (lower message) ''afraid''
               then base_response @ '' It's okay to feel scared.''
             else if contains (lower message) ''help''
               then base_response @ '' Help is definitely coming.''
             else base_response)
      in if emotional_state = ''highly_distressed'' \<and> sentiment_score < - (6 / 10)
         then base_response1 @ '' Try to take slow, deep breaths with me.''
         else base_response1)"

definition calculate_empathy_score :: "real \<times> real \<times> real \<Rightarrow> real" where
  "calculate_empathy_score scores =
     (case scores of (negative_score, positive, compound) \<Rightarrow>
        if negative_score > 5 / 10 then min (9 / 10) (5 / 10 + negative_score * (4 / 10))
        else if negative_score > 2 / 10 then min (7 / 10) (3 / 10 + negative_score * (4 / 10))
        else 5 / 10)"

definition EmpathyAgent_process_message :: "external \<Rightarrow> string \<Rightarrow> ctx \<Rightarrow> error + pydict" where
  "EmpathyAgent_process_message ext message context =
     (case fault ext ''empathy'' of
        Some e \<Rightarrow>
          Inr (AgentResponse_to_dict
                 ''I understand you're in an emergency. Help is on the way. Stay calm.''
                 ''empathy'' (5 / 10) (PStr ''unknown'')
                 [(''error'', PStr (str_of_error e))] (utcnow ext))
      | None \<Rightarrow>
          (let scores = polarity_scores ext message;
               sentiment_score = snd (snd scores);
               emotional_state = classify_emotional_state scores;
               response_message =
                 generate_empathic_response ext message emotional_state sentiment_score context;
               score = calculate_empathy_score scores
           in Inr (AgentResponse_to_dict response_message ''empathy'' (9 / 10)
                     (ctx_urgency_level context)
                     [(''sentiment_score'', PFloat sentiment_score),
                      (''emotional_state'', PStr emotional_state),
                      (''empathy_score'', PFloat score),
                      (''response_time'', PFloat (agent_response_time ext))]
                     (utcnow ext))))"

definition support_keywords :: "string list" where
  "support_keywords = [''scared'', ''afraid'', ''worried'', ''nervous'', ''panic'']"

definition EmpathyAgent_should_activate :: "ctx \<Rightarrow> bool" where
  "EmpathyAgent_should_activate context =
     (if ctx_turn_number context = 0 then True
      else if (case ctx_sentiment_score context of None \<Rightarrow> 0 | Some x \<Rightarrow> x) < - (3 / 10) then True
      else list_ex (\<lambda>keyword. contains (lower (ctx_message context)) keyword) support_keywords)"

subsection \<open>Triage agent\<close>

definition critical_medical :: "string list" where
  "critical_medical =
     [''unconscious'', ''not breathing'', ''no pulse'', ''chest pain'', ''heart attack'',
      ''stroke'', ''seizure'', ''severe bleeding'', ''choking'', ''overdose'']"

definition critical_safety :: "string list" where
  "critical_safety =
     [''fire'', ''smoke'', ''explosion'', ''gun'', ''weapon'', ''assault'', ''violence'',
      ''robbery'', ''break in'', ''intruder'', ''domestic violence'']"

definition high_priority :: "string list" where
  "high_priority =
     [''difficulty breathing'', ''severe pain'', ''heavy bleeding'', ''broken bone'',
      ''car accident'', ''fall'', ''burn'', ''allergic reaction'', ''pregnancy'']"

definition medium_priority :: "string list" where
  "medium_priority =
     [''moderate pain'', ''minor bleeding'', ''nausea'', ''fever'', ''rash'',
      ''anxiety'', ''panic attack'', ''minor injury'']"

definition triage_questions :: "(string \<times> string) list" where
  "triage_questions =
     [(''consciousness'', ''Is the person conscious and able to respond?''),
      (''breathing'', ''Is the person breathing normally?''),
      (''bleeding'', ''Is there any severe bleeding?''),
      (''pain_level'', ''On a scale of 1-10, how severe is the pain?''),
      (''location'', ''What is your exact location?''),
      (''age'', ''What is the person's approximate age?''),
      (''medical_history'', ''Any known medical conditions or allergies?''),
      (''what_happened'', ''Can you briefly describe what happened?'')]"

definition protocol_responses :: "(string \<times> string) list" where
  "protocol_responses =
     [(''critical'', ''This is a critical emergency. Emergency responders are being dispatched immediately.''),
      (''high'', ''This requires urgent medical attention. Help is on the way.''),
      (''medium'', ''Medical assistance is needed. Emergency services will respond promptly.''),
      (''low'', ''We'll send appropriate help. Please stay on the line.'')]"

text \<open>\<^verbatim>\<open>table[key]\<close> on the two tables above, for keys that are in them.\<close>

definition table_get :: "(string \<times> string) list \<Rightarrow> string \<Rightarrow> string \<Rightarrow> string" where
  "table_get table k dflt = (case map_of table k of None \<Rightarrow> dflt | Some v \<Rightarrow> v)"

definition assess_urgency :: "string \<Rightarrow> string \<times> string" where
  "assess_urgency message =
     (let message_lower = lower message;
          critical_medical_found = filter (\<lambda>kw. contains message_lower kw) critical_medical;
          critical_safety_found = filter (\<lambda>kw. contains message_lower kw) critical_safety;
          high_priority_found = filter (\<lambda>kw. contains message_lower kw) high_priority;
          medium_priority_found = filter (\<lambda>kw. contains message_lower kw) medium_priority
      in if critical_medical_found \<noteq> [] then (''critical'', ''medical'')
         else if critical_safety_found \<noteq> [] then (''critical'', ''safety'')
         else if high_priority_found \<noteq> [] then
           (''high'',
            if list_ex (\<lambda>kw. kw \<in> set [''breathing'', ''pain'', ''bleeding'', ''accident''])
                 high_priority_found
            then ''medical'' else ''safety'')
         else if medium_priority_found \<noteq> [] then (''medium'', ''medical'')
         else if list_ex (\<lambda>word. contains message_lower word) [''police'', ''crime'', ''theft'']
           then (''medium'', ''police'')
         else if list_ex (\<lambda>word. contains message_lower word) [''fire'', ''smoke'']
           then (''high'', ''fire'')
         else (''unknown'', ''unknown''))"

definition extract_critical_keywords :: "string \<Rightarrow> string list" where
  "extract_critical_keywords message =
     extract_keywords message (critical_medical @ critical_safety @ high_priority)"

text \<open>\<^verbatim>\<open>len(message.split())\<close>: the number of maximal runs of non-blank characters.\<close>

definition is_space :: "char \<Rightarrow> bool" where
  "is_space c = (c \<in> set [CHR '' '', CHR 0x09, CHR 0x0A, CHR 0x0B, CHR 0x0C, CHR 0x0D,
                           CHR 0x1C, CHR 0x1D, CHR 0x1E, CHR 0x1F])"

fun split_from :: "string \<Rightarrow> string \<Rightarrow> string list" where
  "split_from [] w = (if w = [] then [] else [w])"
| "split_from (c # cs) w =
     (if is_space c then (if w = [] then split_from cs [] else w # split_from cs [])
      else split_from cs (w @ [c]))"

definition split :: "string \<Rightarrow> string list" where
  "split s = split_from s []"

definition get_next_critical_question ::
  "string \<Rightarrow> string \<Rightarrow> string list \<Rightarrow> string \<Rightarrow> string" where
  "get_next_critical_question urgency emergency questions message =
     (let message_lower = lower message;
          mentions = (\<lambda>ws. list_ex (\<lambda>word. contains message_lower word) ws)
      in if urgency = ''critical'' \<and> ''consciousness'' \<notin> set questions
            \<and> \<not> mentions [''conscious'', ''awake'', ''responding'']
           then table_get triage_questions ''consciousness'' []
         else if urgency = ''critical'' \<and> ''breathing'' \<notin> set questions
            \<and> \<not> mentions [''breathing'', ''breath'', ''air'']
           then table_get triage_questions ''breathing'' []
         else if urgency = ''critical'' \<and> ''bleeding'' \<notin> set questions
            \<and> \<not> mentions [''bleeding'', ''blood'']
           then table_get triage_questions ''bleeding'' []
         else if ''location'' \<notin> set questions
            \<and> \<not> mentions [''address'', ''street'', ''location'', ''where'']
           then table_get triage_questions ''location'' []
         else if ''what_happened'' \<notin> set questions \<and> length (split message) < 5
           then table_get triage_questions ''what_happened'' []
         else if emergency = ''medical'' \<and> ''age'' \<notin> set questions
            \<and> \<not> mentions [''old'', ''age'', ''year'']
           then table_get triage_questions ''age'' []
         else if contains message_lower ''pain'' \<and> ''pain_level'' \<notin> set questions
           then table_get triage_questions ''pain_level'' []
         else [])"

definition generate_triage_response :: "string \<Rightarrow> string \<Rightarrow> string \<Rightarrow> ctx \<Rightarrow> string" where
  "generate_triage_response message urgency emergency context =
     (let questions = ctx_questions_asked context;
          protocol_message = table_get protocol_responses urgency [];
          next_question = get_next_critical_question urgency emergency questions message
      in if next_question \<noteq> []
         then (if protocol_message \<noteq> [] then protocol_message @ '' '' @ next_question
               else next_question)
         else protocol_message @ '' I have enough information to dispatch appropriate help.'')"

definition is_triage_complete :: "ctx \<Rightarrow> bool" where
  "is_triage_complete context =
     (let questions = ctx_questions_asked context;
          required_questions =
            [''location'', ''what_happened''] @
            (if ctx_urgency_level context = PStr ''critical''
             then [''consciousness'', ''breathing''] else [])
      in list_all (\<lambda>q. q \<in> set questions) required_questions)"

definition calculate_confidence :: "ctx \<Rightarrow> real" where
  "calculate_confidence context =
     (let n = length (ctx_questions_asked context);
          base_confidence = 3 / 10;
          question_bonus = min (real n * (15 / 100)) (6 / 10);
          urgency_bonus = (if ctx_urgency_level context \<noteq> PStr ''unknown'' then 2 / 10 else 0)
      in min (base_confidence + question_bonus + urgency_bonus) 1)"

definition TriageAgent_process_message :: "external \<Rightarrow> string \<Rightarrow> ctx \<Rightarrow> error + pydict" where
  "TriageAgent_process_message ext message context =
     (case fault ext ''triage'' of
        Some e \<Rightarrow>
          Inr (AgentResponse_to_dict
                 ''I need to gather some important information. Are you or someone else injured?''
                 ''triage'' (5 / 10) (PStr ''unknown'')
                 [(''error'', PStr (str_of_error e))] (utcnow ext))
      | None \<Rightarrow>
          (case assess_urgency message of (urgency, emergency) \<Rightarrow>
             (let keywords = extract_critical_keywords message;
                  response_message = generate_triage_response message urgency emergency context;
                  confidence = calculate_confidence context
              in Inr (AgentResponse_to_dict response_message ''triage'' confidence (PStr urgency)
                        [(''emergency_type'', PStr emergency),
                         (''critical_keywords'', PList (map PStr keywords)),
                         (''triage_complete'', PBool (is_triage_complete context)),
                         (''response_time'', PFloat (agent_response_time ext)),
                         (''questions_asked'', PList (map PStr (ctx_questions_asked context)))]
                        (utcnow ext)))))"

definition TriageAgent_should_activate :: "ctx \<Rightarrow> bool" where
  "TriageAgent_should_activate context =
     (if \<not> is_triage_complete context then True
      else if ctx_urgency_level context = PStr ''unknown'' then True
      else False)"

subsection \<open>Guidance agent\<close>

text \<open>The typographic apostrophe of two protocol texts, as its three UTF-8 bytes.\<close>

definition apostrophe :: string where
  "apostrophe = [CHR 0xE2, CHR 0x80, CHR 0x99]"

definition guidance_protocols :: "(string \<times> string) list" where
  "guidance_protocols =
     [(''unconscious_not_breathing'', ''Place the person on their back on a firm surface. Place the heel of one hand on the center of their chest, and your other hand on top of the first. Keep your elbows straight and position your shoulders directly above your hands. Use your body weight to help you administer compressions at least 2 inches deep and delivered at a rate of at least 100 compressions per minute.''),
      (''choking'', ''Stand behind the person and slightly to one side. Support their chest with one hand. Give up to five sharp blows between the person'' @ apostrophe @ ''s shoulder blades with the heel of your hand.''),
      (''bleeding'', ''If bleeding won'' @ apostrophe @ ''t stop after 10 minutes of firm and steady pressure: apply more bandages and dressing without lifting the first one. Keep applying pressure until help arrives.''),
      (''chest_pain'', ''Have the person sit down and rest. If they have prescribed nitroglycerin, help them take it. Loosen any tight clothing. Stay with them until help arrives.''),
      (''stroke'', ''Note the time symptoms started. Have the person lie down with head and shoulders slightly raised. Do not give food or water. Monitor breathing.''),
      (''seizure'', ''Do not restrain the person. Clear the area of hard objects. Place something soft under their head. Time the seizure. Do not put anything in their mouth.''),
      (''burn'', ''Cool the burn with cool (not cold) running water for 10-20 minutes. Remove any jewelry or tight items before swelling begins. Cover with a clean, dry cloth.''),
      (''fracture'', ''Do not move the injured area. Immobilize the area above and below the fracture. Apply ice wrapped in a cloth to reduce swelling.''),
      (''allergic_reaction'', ''If the person has an epinephrine auto-injector (EpiPen), help them use it. Have them lie down with legs elevated. Monitor breathing closely.'')]"

definition keyword_mapping :: "(string \<times> string) list" where
  "keyword_mapping =
     [(''unconscious'', ''unconscious_not_breathing''),
      (''not breathing'', ''unconscious_not_breathing''),
      (''choking'', ''choking''),
      (''bleeding'', ''bleeding''),
      (''severe bleeding'', ''bleeding''),
      (''chest pain'', ''chest_pain''),
      (''heart attack'', ''chest_pain''),
      (''stroke'', ''stroke''),
      (''seizure'', ''seizure''),
      (''burn'', ''burn''),
      (''broken bone'', ''fracture''),
      (''allergic reaction'', ''allergic_reaction'')]"

text \<open>
  The loop \<^verbatim>\<open>for keyword in critical_keywords\<close>: the first keyword whose lower-case form
  is a key of the mapping decides; \<^verbatim>\<open>keyword.lower()\<close> raises on a value that is not a
  string.
\<close>

fun first_mapped_keyword :: "pyval list \<Rightarrow> error + string option" where
  "first_mapped_keyword [] = Inr None"
| "first_mapped_keyword (PStr keyword # keywords) =
     (case map_of keyword_mapping (lower keyword) of
        Some protocol \<Rightarrow> Inr (Some protocol)
      | None \<Rightarrow> first_mapped_keyword keywords)"
| "first_mapped_keyword (v # keywords) = Inl (AttributeError ''object has no attribute lower'')"

definition determine_guidance_needed :: "ctx \<Rightarrow> error + string" where
  "determine_guidance_needed context =
     (case first_mapped_keyword (ctx_critical_keywords context) of
        Inl e \<Rightarrow> Inl e
      | Inr (Some protocol) \<Rightarrow> Inr protocol
      | Inr None \<Rightarrow>
          (if ctx_urgency_level context = PStr ''critical''
              \<and> ctx_emergency_type context = PStr ''medical''
           then Inr ''unconscious_not_breathing''
           else Inr ''unknown''))"

definition generate_guidance_response :: "string \<Rightarrow> ctx \<Rightarrow> string" where
  "generate_guidance_response guidance_needed context =
     (case map_of guidance_protocols guidance_needed of
        Some protocol_text \<Rightarrow>
          ''Here's what you need to do right now: '' @ protocol_text @
          '' Continue until emergency responders arrive.''
      | None \<Rightarrow>
          (if ctx_urgency_level context = PStr ''critical''
           then ''Keep the person as comfortable as possible. Monitor their breathing and consciousness. Do not move them unless they are in immediate danger. Emergency responders are on their way.''
           else if ctx_urgency_level context = PStr ''high''
           then ''Try to keep the person calm and comfortable. Apply basic first aid if you know how. Help is coming soon.''
           else ''Stay with the person and keep them comfortable until help arrives. Monitor their condition and be ready to provide updates to emergency responders.''))"

definition guidance_fallback :: "external \<Rightarrow> error \<Rightarrow> pydict" where
  "guidance_fallback ext e =
     AgentResponse_to_dict
       ''Let me provide some guidance until help arrives. Ensure that everyone stays safe.''
       ''guidance'' (5 / 10) (PStr ''unknown'')
       [(''error'', PStr (str_of_error e))] (utcnow ext)"

definition GuidanceAgent_process_message :: "external \<Rightarrow> string \<Rightarrow> ctx \<Rightarrow> error + pydict" where
  "GuidanceAgent_process_message ext message context =
     (case fault ext ''guidance'' of
        Some e \<Rightarrow> Inr (guidance_fallback ext e)
      | None \<Rightarrow>
          (case determine_guidance_needed context of
             Inl e \<Rightarrow> Inr (guidance_fallback ext e)
           | Inr guidance_needed \<Rightarrow>
               (let response_message = generate_guidance_response guidance_needed context
                in Inr (AgentResponse_to_dict response_message ''guidance'' (95 / 100)
                          (ctx_urgency_level context)
                          [(''guidance_needed'', PStr guidance_needed),
                           (''guidance_provided'', PBool (contains response_message guidance_needed)),
                           (''response_time'', PFloat (agent_response_time ext))]
                          (utcnow ext)))))"

definition guidance_keywords :: "string list" where
  "guidance_keywords = [''bleeding'', ''choking'', ''unconscious'', ''chest pain'', ''seizure'']"

definition GuidanceAgent_should_activate :: "ctx \<Rightarrow> bool" where
  "GuidanceAgent_should_activate context =
     (if ctx_urgency_level context \<in> set [PStr ''critical'', PStr ''high''] then True
      else list_ex (\<lambda>keyword. PStr keyword \<in> set (ctx_critical_keywords context)) guidance_keywords)"

subsection \<open>Dispatch agent\<close>

definition service_mapping :: "(string \<times> string) list" where
  "service_mapping =
     [(''medical'', ''EMS''),
      (''fire'', ''Fire Department''),
      (''police'', ''Police''),
      (''safety'', ''Police''),
      (''unknown'', ''EMS'')]"

definition priority_mapping :: "(string \<times> string) list" where
  "priority_mapping =
     [(''critical'', ''Priority 1''),
      (''high'', ''Priority 2''),
      (''medium'', ''Priority 3''),
      (''low'', ''Priority 4''),
      (''unknown'', ''Priority 3'')]"

text \<open>
  \<^verbatim>\<open>table.get(key, default)\<close> with any value as the key: a key that is not a string is
  not in the table, and a list or dictionary is rejected as unhashable.
\<close>

definition mapping_get :: "(string \<times> string) list \<Rightarrow> pyval \<Rightarrow> string \<Rightarrow> error + string" where
  "mapping_get table key dflt =
     (case key of
        PStr k \<Rightarrow> Inr (table_get table k dflt)
      | v \<Rightarrow> (if hashable v then Inr dflt else Inl (TypeError ''unhashable type'')))"

definition ready_to_dispatch :: "ctx \<Rightarrow> bool" where
  "ready_to_dispatch context =
     (let has_basic_info =
            (ctx_urgency_level context \<noteq> PStr ''unknown''
             \<and> ctx_emergency_type context \<noteq> PStr ''unknown'');
          has_location =
            (truthy (ctx_address context)
             \<or> (truthy (ctx_latitude context) \<and> truthy (ctx_longitude context))
             \<or> ''location'' \<in> set (ctx_questions_asked context));
          triage_done = ctx_triage_complete context
      in has_basic_info \<and> has_location \<and> triage_done)"

text \<open>
  \<^verbatim>\<open>_prepare_dispatch_data\<close>: of the dictionary it builds, the entries that the dispatch
  reads. The other entries (caller, coordinates, victim details, call statistics) are
  copied from the context and never read again.
\<close>

record dispatch_data =
  dd_emergency_id :: string
  dd_priority :: string
  dd_service_needed :: string
  dd_address :: pyval
  dd_description :: string

definition prepare_dispatch_data :: "ctx \<Rightarrow> error + dispatch_data" where
  "prepare_dispatch_data context =
     (case mapping_get priority_mapping (ctx_urgency_level context) ''Priority 3'' of
        Inl e \<Rightarrow> Inl e
      | Inr priority \<Rightarrow>
          (case mapping_get service_mapping (ctx_emergency_type context) ''EMS'' of
             Inl e \<Rightarrow> Inl e
           | Inr service \<Rightarrow>
               Inr \<lparr>dd_emergency_id = ctx_session_id context,
                    dd_priority = priority,
                    dd_service_needed = service,
                    dd_address = ctx_address context,
                    dd_description = []\<rparr>))"

text \<open>
  The result dictionary of the dispatch: \<^verbatim>\<open>{"success": True, "service", "priority",
  "reference_id", "estimated_arrival"}\<close> or \<^verbatim>\<open>{"success": False, "reason"}\<close>.
\<close>

datatype dispatch_result =
    Dispatched string string string
  | NotDispatched string

definition mock_dispatch :: "external \<Rightarrow> dispatch_data \<Rightarrow> dispatch_result" where
  "mock_dispatch ext data =
     (case mock_dispatch_fault ext of
        Some e \<Rightarrow> NotDispatched (''Mock dispatch error: '' @ str_of_error e)
      | None \<Rightarrow> Dispatched (dd_service_needed data) (dd_priority data) (reference_id ext))"

definition send_to_dispatch :: "config \<Rightarrow> external \<Rightarrow> dispatch_data \<Rightarrow> dispatch_result" where
  "send_to_dispatch cfg ext data =
     (if REAL_DISPATCH_ENABLED cfg then NotDispatched ''Real dispatch not configured''
      else mock_dispatch ext data)"

definition dispatch_fallback :: "external \<Rightarrow> error \<Rightarrow> pydict" where
  "dispatch_fallback ext e =
     AgentResponse_to_dict ''Unable to automatically dispatch. Please call 911 directly.''
       ''dispatch'' (1 / 10) (PStr ''unknown'')
       [(''error'', PStr (str_of_error e))] (utcnow ext)"

definition DispatchAgent_process_message ::
  "config \<Rightarrow> external \<Rightarrow> string \<Rightarrow> ctx \<Rightarrow> error + pydict" where
  "DispatchAgent_process_message cfg ext message context =
     (case fault ext ''dispatch'' of
        Some e \<Rightarrow> Inr (dispatch_fallback ext e)
      | None \<Rightarrow>
          if \<not> ready_to_dispatch context
          then Inr (AgentResponse_to_dict
                      ''Still gathering information before dispatch. Please continue providing details.''
                      ''dispatch'' (3 / 10) (ctx_urgency_level context)
                      [(''dispatch_attempted'', PBool False),
                       (''reason'', PStr ''Insufficient information'')]
                      (utcnow ext))
          else
            (case prepare_dispatch_data context of
               Inl e \<Rightarrow> Inr (dispatch_fallback ext e)
             | Inr data \<Rightarrow>
                 (case send_to_dispatch cfg ext data of
                    Dispatched service priority reference \<Rightarrow>
                      Inr (AgentResponse_to_dict
                             (''Emergency services have been notified. '' @ service @
                              '' is being dispatched to your location. Reference number: '' @ reference)
                             ''dispatch'' (95 / 100) (ctx_urgency_level context)
                             [(''dispatch_attempted'', PBool True),
                              (''dispatch_successful'', PBool True),
                              (''reference_id'', PStr reference),
                              (''service_type'', PStr service),
                              (''response_time'', PFloat (agent_response_time ext))]
                             (utcnow ext))
                  | NotDispatched reason \<Rightarrow>
                      Inr (AgentResponse_to_dict
                             ''There was an issue contacting emergency services. Please call 911 directly if possible.''
                             ''dispatch'' (2 / 10) (ctx_urgency_level context)
                             [(''dispatch_attempted'', PBool True),
                              (''dispatch_successful'', PBool False),
                              (''reference_id'', PNone),
                              (''service_type'', PNone),
                              (''response_time'', PFloat (agent_response_time ext))]
                             (utcnow ext)))))"

definition DispatchAgent_should_activate :: "ctx \<Rightarrow> bool" where
  "DispatchAgent_should_activate context =
     (if ready_to_dispatch context then True
      else if ctx_urgency_level context = PStr ''critical'' then True
      else False)"

subsection \<open>The orchestrator's agents\<close>

text \<open>The four agents that \<^verbatim>\<open>EmergencyOrchestrator.__init__\<close> creates.\<close>

definition EmergencyOrchestrator_agents :: "config \<Rightarrow> external \<Rightarrow> agents" where
  "EmergencyOrchestrator_agents cfg ext =
     \<lparr>empathy_agent =
        \<lparr>agent_should_activate = EmpathyAgent_should_activate,
         agent_process_message = EmpathyAgent_process_message ext\<rparr>,
      triage_agent =
        \<lparr>agent_should_activate = TriageAgent_should_activate,
         agent_process_message = TriageAgent_process_message ext\<rparr>,
      guidance_agent =
        \<lparr>agent_should_activate = GuidanceAgent_should_activate,
         agent_process_message = GuidanceAgent_process_message ext\<rparr>,
      dispatch_agent =
        \<lparr>agent_should_activate = DispatchAgent_should_activate,
         agent_process_message = DispatchAgent_process_message cfg ext\<rparr>\<rparr>"

section \<open>Vocabulary of the statements\<close>

text \<open>
  The part of a session that nothing but \<^verbatim>\<open>_update_session_state\<close> writes: the questions
  asked, the urgency level and the three progress flags.
\<close>

definition assessment :: "session \<Rightarrow> string list \<times> pyval \<times> bool \<times> bool \<times> bool" where
  "assessment s =
     (questions_asked s, urgency_level s, triage_complete s, dispatch_attempted s,
      dispatch_successful s)"

text \<open>
  A responder outcome as the agents and the fan-in build it: a string under \<open>message\<close>
  and a dictionary under \<open>metadata\<close>.
\<close>

definition well_formed :: "pydict \<Rightarrow> bool" where
  "well_formed response =
     (case (map_of response ''message'', map_of response ''metadata'') of
        (Some (PStr m), Some (PDict md)) \<Rightarrow> True
      | other \<Rightarrow> False)"

section \<open>An environment and a store for the examples\<close>

text \<open>
  Neutral sentiment, the first phrase of every list, no exception inside an agent, and a
  mock dispatch that answers.
\<close>

definition quiet_external :: external where
  "quiet_external =
     \<lparr>polarity_scores = (\<lambda>text. (0, 0, 0)),
      random_index = 0,
      fault = (\<lambda>name. None),
      agent_response_time = 0,
      utcnow = 0,
      reference_id = ''EMG-20240101-0042'',
      mock_dispatch_fault = None\<rparr>"

text \<open>The session that \<^verbatim>\<open>start_session\<close> creates for the identifier \<open>s1\<close> at time 0.\<close>

definition fresh_session :: session where
  "fresh_session = session_data ''s1'' 0 None"

text \<open>
  Responders for the examples of a failing call: one that is always selected and raises,
  one that is never selected, and two sets of four: the orchestrator's agents with a triage
  agent whose call raises, and a dispatch responder that raises next to three that are
  never selected.
\<close>

definition raising_agent :: agent where
  "raising_agent =
     \<lparr>agent_should_activate = (\<lambda>context. True),
      agent_process_message = (\<lambda>message context. Inl (RuntimeError ''boom''))\<rparr>"

definition silent_agent :: agent where
  "silent_agent =
     \<lparr>agent_should_activate = (\<lambda>context. False),
      agent_process_message = (\<lambda>message context. Inl (RuntimeError ''not selected''))\<rparr>"

definition triage_raises :: agents where
  "triage_raises =
     (EmergencyOrchestrator_agents Config quiet_external)
       \<lparr>triage_agent :=
          \<lparr>agent_should_activate = TriageAgent_should_activate,
           agent_process_message = (\<lambda>message context. Inl (RuntimeError ''boom''))\<rparr>\<rparr>"

definition dispatch_raises :: agents where
  "dispatch_raises =
     \<lparr>empathy_agent = silent_agent,
      triage_agent = silent_agent,
      guidance_agent = silent_agent,
      dispatch_agent = raising_agent\<rparr>"





section \<open>The safety gate inside a turn\<close>

lemma dict_index_safety_outcome:
  "dict_index (safety_outcome triggers) ''blocked'' = Inl (KeyError ''blocked'')"
  by (simp add: dict_index_def safety_outcome_def)

lemma dict_index_loop_breaker_outcome:
  "dict_index loop_breaker_outcome ''blocked'' = Inl (KeyError ''blocked'')"
  by (simp add: dict_index_def loop_breaker_outcome_def)

lemma lower_suicide: "lower ''suicide'' = ''suicide''"
  by (simp add: lower_def lower_char_def)

lemma try_self_harm_trigger:
  assumes "''suicide'' \<in> set (SAFETY_KEYWORDS cfg)"
    and "contains (lower user_message) ''suicide''"
  shows "process_message_try cfg ags now processing_time s user_message =
           (Inl (KeyError ''blocked''), s\<lparr>safety_triggers := safety_triggers s + 1\<rparr>)"
proof -
  let ?triggers = "filter (\<lambda>keyword. contains (lower user_message) (lower keyword)) (SAFETY_KEYWORDS cfg)"
  have mem: "''suicide'' \<in> set ?triggers"
    using assms by (simp add: lower_suicide)
  have ne: "?triggers \<noteq> []"
  proof
    assume e: "?triggers = []"
    have "''suicide'' \<in> set ([] :: string list)" using mem unfolding e .
    then show False by simp
  qed
  have "perform_safety_checks cfg user_message s =
          (safety_outcome ?triggers, s\<lparr>safety_triggers := safety_triggers s + 1\<rparr>)"
    using mem ne by (simp add: perform_safety_checks_def Let_def)
  then show ?thesis
    by (simp add: process_message_try_def dict_index_safety_outcome)
qed

lemma try_turn_limit:
  assumes "turn_number s \<ge> MAX_CONVERSATION_TURNS cfg"
    and "filter (\<lambda>keyword. contains (lower user_message) (lower keyword)) (SAFETY_KEYWORDS cfg) = []"
  shows "process_message_try cfg ags now processing_time s user_message =
           (Inl (KeyError ''blocked''), s\<lparr>loop_breaker_active := True\<rparr>)"
proof -
  have "perform_safety_checks cfg user_message s =
          (loop_breaker_outcome, s\<lparr>loop_breaker_active := True\<rparr>)"
    using assms by (simp add: perform_safety_checks_def Let_def)
  then show ?thesis
    by (simp add: process_message_try_def dict_index_loop_breaker_outcome)
qed

text \<open>
  Claim C1. A message whose lower-case text contains the configured trigger phrase
  \<open>suicide\<close> should come back from a turn as a blocked outcome of critical urgency, with
  the trigger counter one higher. The code counts the trigger and builds that outcome,
  but the outcome carries \<open>blocked\<close> only inside its metadata, and \<^verbatim>\<open>process_message\<close>
  reads \<^verbatim>\<open>safety_check["blocked"]\<close>: the lookup raises \<^verbatim>\<open>KeyError\<close>, the handler of the
  turn catches it, and the caller receives the technical-difficulties response of
  urgency \<open>unknown\<close>. The theorem states what the code does on every such message.
\<close>

theorem suicide_message_not_blocked:
  assumes "active_sessions sid = Some s"
    and "''suicide'' \<in> set (SAFETY_KEYWORDS cfg)"
    and "contains (lower user_message) ''suicide''"
  shows "process_message cfg ags now processing_time active_sessions sid user_message =
           (Inr (technical_difficulties (KeyError ''blocked'')),
            active_sessions(sid \<mapsto> s\<lparr>safety_triggers := safety_triggers s + 1\<rparr>))"
  using assms(1) try_self_harm_trigger [OF assms(2,3)]
  by (simp add: process_message_def)

theorem suicide_message_not_blocked_witness:
  "[''s1'' \<mapsto> fresh_session] ''s1'' = Some fresh_session
   \<and> ''suicide'' \<in> set (SAFETY_KEYWORDS Config)
   \<and> contains (lower ''I think about Suicide'') ''suicide''
   \<and> process_message Config (EmergencyOrchestrator_agents Config quiet_external) 1 0
        [''s1'' \<mapsto> fresh_session] ''s1'' ''I think about Suicide'' =
      (Inr (technical_difficulties (KeyError ''blocked'')),
       [''s1'' \<mapsto> fresh_session\<lparr>safety_triggers := safety_triggers fresh_session + 1\<rparr>])"
proof -
  have h1: "[''s1'' \<mapsto> fresh_session] ''s1'' = Some fresh_session" by simp
  have h2: "''suicide'' \<in> set (SAFETY_KEYWORDS Config)" by (simp add: Config_def)
  have h3: "contains (lower ''I think about Suicide'') ''suicide''"
    by (simp add: lower_def lower_char_def)
  show ?thesis
    using h1 h2 h3
      suicide_message_not_blocked [where active_sessions = "[''s1'' \<mapsto> fresh_session]"
        and sid = "''s1''" and s = fresh_session and cfg = Config
        and user_message = "''I think about Suicide''"
        and ags = "EmergencyOrchestrator_agents Config quiet_external"
        and now = 1 and processing_time = 0]
    by simp
qed

text \<open>
  Claim C3. Once the turn number has reached the configured maximum, the next turn (with
  no trigger phrase in the message, that is with an empty list \<^verbatim>\<open>safety_triggers\<close>) should return the blocked hand-off outcome of high
  urgency, set the loop breaker and leave the turn number alone. The code sets the loop
  breaker and leaves the turn number alone, but its hand-off outcome has no top-level
  \<open>blocked\<close> key either: the same \<^verbatim>\<open>KeyError\<close> is caught and the caller receives the
  technical-difficulties response of urgency \<open>unknown\<close>.
\<close>

theorem turn_limit_not_blocked:
  assumes "active_sessions sid = Some s"
    and "turn_number s \<ge> MAX_CONVERSATION_TURNS cfg"
    and "filter (\<lambda>keyword. contains (lower user_message) (lower keyword)) (SAFETY_KEYWORDS cfg) = []"
  shows "process_message cfg ags now processing_time active_sessions sid user_message =
           (Inr (technical_difficulties (KeyError ''blocked'')),
            active_sessions(sid \<mapsto> s\<lparr>loop_breaker_active := True\<rparr>))"
  using assms(1) try_turn_limit [OF assms(2,3)]
  by (simp add: process_message_def)

theorem turn_limit_not_blocked_witness:
  "[''s1'' \<mapsto> fresh_session\<lparr>turn_number := 50\<rparr>] ''s1'' = Some (fresh_session\<lparr>turn_number := 50\<rparr>)
   \<and> turn_number (fresh_session\<lparr>turn_number := 50\<rparr>) \<ge> MAX_CONVERSATION_TURNS Config
   \<and> filter (\<lambda>keyword. contains (lower ''hello'') (lower keyword)) (SAFETY_KEYWORDS Config) = []
   \<and> process_message Config (EmergencyOrchestrator_agents Config quiet_external) 1 0
        [''s1'' \<mapsto> fresh_session\<lparr>turn_number := 50\<rparr>] ''s1'' ''hello'' =
      (Inr (technical_difficulties (KeyError ''blocked'')),
       [''s1'' \<mapsto> fresh_session\<lparr>turn_number := 50, loop_breaker_active := True\<rparr>])"
proof -
  have h1: "[''s1'' \<mapsto> fresh_session\<lparr>turn_number := 50\<rparr>] ''s1'' = Some (fresh_session\<lparr>turn_number := 50\<rparr>)"
    by simp
  have h2: "turn_number (fresh_session\<lparr>turn_number := 50\<rparr>) \<ge> MAX_CONVERSATION_TURNS Config"
    by (simp add: Config_def)
  have h3: "filter (\<lambda>keyword. contains (lower ''hello'') (lower keyword)) (SAFETY_KEYWORDS Config) = []"
    by (simp add: Config_def lower_def lower_char_def)
  show ?thesis
    using h1 h2 h3
      turn_limit_not_blocked [where active_sessions = "[''s1'' \<mapsto> fresh_session\<lparr>turn_number := 50\<rparr>]"
        and sid = "''s1''" and s = "fresh_session\<lparr>turn_number := 50\<rparr>" and cfg = Config
        and user_message = "''hello''"
        and ags = "EmergencyOrchestrator_agents Config quiet_external"
        and now = 1 and processing_time = 0]
    by simp
qed

section \<open>Unknown and ended sessions\<close>

text \<open>
  Claim C8. \<^verbatim>\<open>process_message\<close> and \<^verbatim>\<open>end_session\<close> fail, with the not-found error,
  exactly when the identifier is not in the live store; \<^verbatim>\<open>end_session\<close> removes the
  session from the store, so a second \<^verbatim>\<open>end_session\<close> on the same identifier fails with
  the not-found error whatever the first one did.
\<close>

theorem session_not_found:
  "((fst (process_message cfg ags now processing_time active_sessions sid user_message) = Inl (not_found sid))
      = (active_sessions sid = None))
   \<and> ((\<exists>e. fst (process_message cfg ags now processing_time active_sessions sid user_message) = Inl e)
      = (active_sessions sid = None))
   \<and> ((fst (end_session now active_sessions sid) = Inl (not_found sid)) = (active_sessions sid = None))
   \<and> ((\<exists>e. fst (end_session now active_sessions sid) = Inl e) = (active_sessions sid = None))
   \<and> snd (end_session now active_sessions sid) sid = None
   \<and> fst (end_session now' (snd (end_session now active_sessions sid)) sid) = Inl (not_found sid)"
proof -
  have pm: "active_sessions sid = None \<Longrightarrow>
        fst (process_message cfg ags now processing_time active_sessions sid user_message) = Inl (not_found sid)"
    by (simp add: process_message_def)
  have pm': "\<And>s. active_sessions sid = Some s \<Longrightarrow>
        \<exists>r. fst (process_message cfg ags now processing_time active_sessions sid user_message) = Inr r"
    by (auto simp add: process_message_def split: prod.splits sum.splits)
  have es: "active_sessions sid = None \<Longrightarrow>
        end_session now active_sessions sid = (Inl (not_found sid), active_sessions)"
    by (simp add: end_session_def)
  have es': "\<And>s. active_sessions sid = Some s \<Longrightarrow>
        \<exists>r. end_session now active_sessions sid = (Inr r, active_sessions(sid := None))"
    by (simp add: end_session_def get_session_status_def Let_def)
  have gone: "snd (end_session now active_sessions sid) sid = None"
    using es es' by (cases "active_sessions sid") auto
  have again: "fst (end_session now' (snd (end_session now active_sessions sid)) sid) = Inl (not_found sid)"
    using gone by (simp add: end_session_def)
  show ?thesis
    using pm pm' es es' gone again
    by (cases "active_sessions sid") auto
qed

theorem session_not_found_witness:
  "(\<exists>summary. fst (end_session 7 [''s1'' \<mapsto> fresh_session] ''s1'') = Inr summary)
   \<and> fst (end_session 8 (snd (end_session 7 [''s1'' \<mapsto> fresh_session] ''s1'')) ''s1'') = Inl (not_found ''s1'')
   \<and> fst (process_message Config (EmergencyOrchestrator_agents Config quiet_external) 9 0
            (snd (end_session 7 [''s1'' \<mapsto> fresh_session] ''s1'')) ''s1'' ''hello'') = Inl (not_found ''s1'')"
proof -
  note w = session_not_found [of Config "EmergencyOrchestrator_agents Config quiet_external" 7 0
             "[''s1'' \<mapsto> fresh_session]" "''s1''" "''hello''" 8]
  note w' = session_not_found [of Config "EmergencyOrchestrator_agents Config quiet_external" 9 0
             "snd (end_session 7 [''s1'' \<mapsto> fresh_session] ''s1'')" "''s1''" "''hello''" 8]
  have live: "[''s1'' \<mapsto> fresh_session] ''s1'' \<noteq> None" by simp
  have first: "\<exists>summary. fst (end_session 7 [''s1'' \<mapsto> fresh_session] ''s1'') = Inr summary"
    using w live by (cases "fst (end_session 7 [''s1'' \<mapsto> fresh_session] ''s1'')") auto
  show ?thesis
    using first w w' by simp
qed

section \<open>Response merge: priority and prepend\<close>

lemma primary_agent_priority:
  "primary_agent rs =
     (if map_of rs ''dispatch'' \<noteq> None then ''dispatch''
      else if map_of rs ''guidance'' \<noteq> None then ''guidance''
      else if map_of rs ''triage'' \<noteq> None then ''triage''
      else if map_of rs ''empathy'' \<noteq> None then ''empathy''
      else fst (hd rs))"
  by (simp add: primary_agent_def priority_order_def)

lemma map_of_primary:
  assumes "rs \<noteq> []"
  shows "map_of rs (primary_agent rs) \<noteq> None"
proof -
  obtain k v rest where rs: "rs = (k, v) # rest" using assms by (cases rs) auto
  show ?thesis
    unfolding primary_agent_priority using rs by auto
qed

lemma update_keys_present:
  "map_of al k = Some w \<Longrightarrow> map fst (AList.update k v al) = map fst al"
  by (induction al) auto

lemma well_formed_iff:
  "well_formed r = (\<exists>m md. map_of r ''message'' = Some (PStr m) \<and> map_of r ''metadata'' = Some (PDict md))"
  by (auto simp add: well_formed_def split: option.splits pyval.splits)


lemma combine_exact:
  assumes ne: "rs \<noteq> []"
    and r: "map_of rs (primary_agent rs) = Some r"
    and md: "map_of r ''metadata'' = Some (PDict md)"
    and b: "map_of r ''message'' = Some (PStr b)"
    and e: "primary_agent rs \<noteq> ''empathy'' \<and> map_of rs ''empathy'' \<noteq> None
            \<longrightarrow> map_of (the (map_of rs ''empathy'')) ''message'' = Some (PStr a)"
  shows "combine_agent_responses rs =
           (let r' = (if primary_agent rs \<noteq> ''empathy'' \<and> map_of rs ''empathy'' \<noteq> None
                      then AList.update ''message'' (PStr (a @ '' '' @ b)) r else r);
                final = AList.update ''metadata''
                          (PDict (AList.update ''all_agents''
                             (PDict (map (\<lambda>(agent_type, response).
                                        (agent_type @ ''_metadata'', dict_get_default response ''metadata'' (PDict [])))
                                      rs)) md)) r'
            in Inr (final, AList.update (primary_agent rs) final rs))"
  using assms
  by (auto simp add: combine_agent_responses_def Let_def dict_index_def update_conv')




section \<open>Fan-in, merge and state update: general facts\<close>

text \<open>
  The slot of a responder in the fan-in mapping: present exactly for the selected
  responders, holding the responder's response, or the placeholder when its call raised.
\<close>

lemma map_of_execute_tasks:
  "map_of (execute_tasks tasks acc) agent_name =
     (case map_of (rev tasks) agent_name of
        None \<Rightarrow> map_of acc agent_name
      | Some t \<Rightarrow> Some (case t of Inr r \<Rightarrow> r | Inl e \<Rightarrow> error_response agent_name e))"
proof (induction tasks arbitrary: acc)
  case Nil
  then show ?case by simp
next
  case (Cons nt tasks)
  obtain n t where nt: "nt = (n, t)" by (cases nt)
  show ?case
    unfolding nt
    by (cases t) (auto simp add: Cons.IH update_conv' map_add_def split: option.splits)
qed

lemma fan_in:
  "map_of (process_through_agents ags message s active_agents) agent_name =
     (if agent_name \<in> set active_agents
         \<and> agent_name \<in> set [''empathy'', ''triage'', ''guidance'', ''dispatch'']
      then Some (case agent_process_message (agent_named ags agent_name) message (build_context s message) of
                   Inr response \<Rightarrow> response
                 | Inl e \<Rightarrow> error_response agent_name e)
      else None)"
  unfolding process_through_agents_def Let_def map_of_execute_tasks
  by (simp add: agent_named_def map_add_def)

lemma fan_in_nonempty:
  assumes "agent_name \<in> set active_agents"
    and "agent_name \<in> set [''empathy'', ''triage'', ''guidance'', ''dispatch'']"
  shows "process_through_agents ags message s active_agents \<noteq> []"
proof
  assume "process_through_agents ags message s active_agents = []"
  then have "map_of (process_through_agents ags message s active_agents) agent_name = None" by simp
  then show False using assms by (simp add: fan_in)
qed

lemma combine_Inr:
  assumes "combine_agent_responses rs = Inr (final, rs')" and "rs \<noteq> []"
  shows "\<exists>r md md'. map_of rs (primary_agent rs) = Some r
           \<and> map_of r ''metadata'' = Some (PDict md)
           \<and> rs' = AList.update (primary_agent rs) final rs
           \<and> (\<forall>k. k \<noteq> ''message'' \<and> k \<noteq> ''metadata'' \<longrightarrow> map_of final k = map_of r k)
           \<and> map_of final ''metadata'' = Some (PDict (AList.update ''all_agents'' md' md))
           \<and> (map_of final ''message'' = None) = (map_of r ''message'' = None)"
proof -
  obtain r where r: "map_of rs (primary_agent rs) = Some r"
    using map_of_primary [OF assms(2)] by auto
  show ?thesis
    using assms r
    by (auto simp add: combine_agent_responses_def Let_def dict_index_def update_conv'
             split: if_splits sum.splits option.splits pyval.splits)
qed

lemma safety_check_blocked:
  "dict_index (fst (perform_safety_checks cfg message s)) ''blocked'' = Inr b \<Longrightarrow> \<not> truthy b"
  by (auto simp add: perform_safety_checks_def Let_def dict_index_def safety_outcome_def
        loop_breaker_outcome_def split: if_splits)

lemma try_Inr:
  assumes "process_message_try cfg ags now processing_time s user_message = (Inr response, s')"
    and "determine_active_agents ags user_message
           (begin_turn now user_message (snd (perform_safety_checks cfg user_message s))) = (active, s3)"
  shows "\<exists>final rs'. combine_agent_responses (process_through_agents ags user_message s3 active) = Inr (final, rs')
           \<and> finish_turn processing_time final rs' s3 = (Inr response, s')"
proof -
  obtain sc s0 where sc: "perform_safety_checks cfg user_message s = (sc, s0)"
    by (cases "perform_safety_checks cfg user_message s")
  have nb: "\<And>b. dict_index sc ''blocked'' = Inr b \<Longrightarrow> \<not> truthy b"
    using safety_check_blocked [of cfg user_message s] sc by simp
  show ?thesis
    using assms sc nb
    by (auto simp add: process_message_try_def Let_def split: sum.splits if_splits prod.splits)
qed

lemma finish_turn_Inr:
  assumes "finish_turn processing_time final rs' s = (Inr response, s')"
  shows "response = final \<and> (\<exists>s3. update_session_state s3 rs' = (None, s'))"
  using assms
  by (auto simp add: finish_turn_def Let_def split: sum.splits prod.splits option.splits)

lemma update_from_triage_no_urgency:
  assumes "map_of rs ''triage'' = Some r" and "map_of r ''urgency_level'' = None"
  shows "update_from_triage rs s = (Some (KeyError ''urgency_level''), s)"
  using assms by (simp add: update_from_triage_def set_urgency_def dict_get_def dict_index_def Let_def)

lemma update_session_state_no_urgency:
  assumes "map_of rs ''triage'' = Some r" and "map_of r ''urgency_level'' = None"
  shows "update_session_state s rs = (Some (KeyError ''urgency_level''), s)"
  using update_from_triage_no_urgency [OF assms] by (simp add: update_session_state_def)

lemma determine_active_agents_names:
  "set (fst (determine_active_agents ags message s)) \<subseteq> set [''empathy'', ''triage'', ''guidance'', ''dispatch'']
   \<and> fst (determine_active_agents ags message s) \<noteq> []"
  by (auto simp add: determine_active_agents_def Let_def)

lemma combine_keys:
  assumes "combine_agent_responses rs = Inr (final, rs')" and "rs \<noteq> []"
    and "map_of rs (primary_agent rs) = Some r"
  shows "map fst final = map fst r"
  using assms
  by (auto simp add: combine_agent_responses_def Let_def dict_index_def update_keys_present update_conv'
           split: if_splits sum.splits option.splits pyval.splits)

lemma primary_of_fan_in:
  assumes "find (\<lambda>a. a \<in> set active) priority_order = Some p"
  shows "primary_agent (process_through_agents ags message s active) = p"
proof -
  have "find (\<lambda>a. map_of (process_through_agents ags message s active) a \<noteq> None) priority_order
          = find (\<lambda>a. a \<in> set active) priority_order"
    by (rule find_cong) (auto simp add: fan_in priority_order_def)
  then show ?thesis
    using assms by (simp add: primary_agent_def)
qed

lemma find_priority:
  assumes "find (\<lambda>a. a \<in> set active) priority_order = Some p"
  shows "p \<in> set active \<and> p \<in> set [''empathy'', ''triage'', ''guidance'', ''dispatch'']"
proof -
  have "p \<in> set priority_order \<and> p \<in> set active"
    using assms by (auto simp add: find_Some_iff) 
  then show ?thesis by (auto simp add: priority_order_def)
qed

lemma try_failed_triage:
  assumes det: "determine_active_agents ags user_message
           (begin_turn now user_message (snd (perform_safety_checks cfg user_message s))) = (active, s3)"
    and sel: "''triage'' \<in> set active"
    and fail: "agent_process_message (triage_agent ags) user_message (build_context s3 user_message) = Inl e"
  shows "\<exists>e' s'. process_message_try cfg ags now processing_time s user_message = (Inl e', s')"
proof (cases "process_message_try cfg ags now processing_time s user_message")
  case (Pair res s')
  show ?thesis
  proof (cases res)
    case (Inl e')
    then show ?thesis using Pair by simp
  next
    case (Inr response)
    let ?rs = "process_through_agents ags user_message s3 active"
    obtain final rs' where c: "combine_agent_responses ?rs = Inr (final, rs')"
      and f: "finish_turn processing_time final rs' s3 = (Inr response, s')"
      using try_Inr [OF _ det] Pair Inr by blast
    have ne: "?rs \<noteq> []" using fan_in_nonempty [OF sel] by simp
    have slot: "map_of ?rs ''triage'' = Some (error_response ''triage'' e)"
      using sel fail by (simp add: fan_in agent_named_def)
    obtain r where r: "map_of ?rs (primary_agent ?rs) = Some r"
      using map_of_primary [OF ne] by auto
    have rs': "rs' = AList.update (primary_agent ?rs) final ?rs"
      using combine_Inr [OF c ne] by blast
    have keys: "map fst final = map fst r" by (rule combine_keys [OF c ne r])
    have "\<exists>t. map_of rs' ''triage'' = Some t \<and> map_of t ''urgency_level'' = None"
    proof (cases "primary_agent ?rs = ''triage''")
      case True
      then have "r = error_response ''triage'' e" using r slot by simp
      then have "map fst final = [''message'', ''agent_type'', ''confidence'', ''metadata'']"
        using keys by (simp add: error_response_def)
      then have "''urgency_level'' \<notin> set (map fst final)" by simp
      then have "map_of final ''urgency_level'' = None" by (simp add: map_of_eq_None_iff)
      then show ?thesis using True rs' by (simp add: update_conv')
    next
      case False
      then have "map_of rs' ''triage'' = Some (error_response ''triage'' e)"
        using rs' slot by (simp add: update_conv')
      then show ?thesis by (simp add: error_response_def)
    qed
    then obtain t where t: "map_of rs' ''triage'' = Some t" "map_of t ''urgency_level'' = None" by blast
    have "\<And>x. update_session_state x rs' = (Some (KeyError ''urgency_level''), x)"
      using update_session_state_no_urgency [OF t] by simp
    moreover have "\<exists>x. update_session_state x rs' = (None, s')"
      using finish_turn_Inr [OF f] by blast
    ultimately show ?thesis by auto
  qed
qed

section \<open>What a turn can change\<close>

lemma assessment_safety:
  "assessment (snd (perform_safety_checks cfg message s)) = assessment s"
  by (simp add: perform_safety_checks_def Let_def assessment_def)

lemma assessment_begin_turn: "assessment (begin_turn now message s) = assessment s"
  by (simp add: begin_turn_def Let_def assessment_def)

lemma assessment_determine:
  "assessment (snd (determine_active_agents ags message s)) = assessment s"
  by (simp add: determine_active_agents_def Let_def assessment_def)

lemma assessment_set_last_turn:
  "set_last_turn key v s = Inr s' \<Longrightarrow> assessment s' = assessment s"
  by (auto simp add: set_last_turn_def assessment_def split: if_splits)

lemma finish_turn_cases:
  assumes "finish_turn processing_time final rs s = (res, s')"
  shows "assessment s' = assessment s
         \<or> (\<exists>s6 eo. assessment s6 = assessment s \<and> update_session_state s6 rs = (eo, s'))"
proof -
  have rt: "\<And>x. assessment (x\<lparr>response_times := response_times x @ [processing_time]\<rparr>) = assessment x"
    by (simp add: assessment_def)
  show ?thesis
  proof (cases "dict_index final ''message''")
    case (Inl e)
    then show ?thesis using assms by (simp add: finish_turn_def)
  next
    case m: (Inr m)
    show ?thesis
    proof (cases "set_last_turn ''agent_response'' m s")
      case (Inl e)
      then show ?thesis using assms m by (simp add: finish_turn_def)
    next
      case s1: (Inr s1)
      have a1: "assessment s1 = assessment s" by (rule assessment_set_last_turn [OF s1])
      show ?thesis
      proof (cases "dict_index final ''agent_type''")
        case (Inl e)
        then show ?thesis using assms m s1 a1 by (simp add: finish_turn_def)
      next
        case t: (Inr t)
        show ?thesis
        proof (cases "set_last_turn ''agent_type'' t s1")
          case (Inl e)
          then show ?thesis using assms m s1 t a1 by (simp add: finish_turn_def)
        next
          case s2: (Inr s2)
          have a2: "assessment s2 = assessment s"
            using assessment_set_last_turn [OF s2] a1 by simp
          let ?s3 = "s2\<lparr>response_times := response_times s2 @ [processing_time]\<rparr>"
          have a3: "assessment ?s3 = assessment s" using rt a2 by simp
          obtain eo s4 where u: "update_session_state ?s3 rs = (eo, s4)"
            by (cases "update_session_state ?s3 rs")
          have "s' = s4"
            using assms m s1 t s2 u by (cases eo) (simp_all add: finish_turn_def Let_def)
          then show ?thesis using a3 u by blast
        qed
      qed
    qed
  qed
qed

lemma try_cases:
  assumes "process_message_try cfg ags now processing_time s user_message = (res, s')"
    and "determine_active_agents ags user_message
           (begin_turn now user_message (snd (perform_safety_checks cfg user_message s))) = (active, s3)"
  shows "assessment s' = assessment s
         \<or> (\<exists>final rs' s6 eo.
               combine_agent_responses (process_through_agents ags user_message s3 active) = Inr (final, rs')
               \<and> assessment s6 = assessment s
               \<and> update_session_state s6 rs' = (eo, s'))"
proof -
  obtain sc s0 where sc: "perform_safety_checks cfg user_message s = (sc, s0)"
    by (cases "perform_safety_checks cfg user_message s")
  have a0: "assessment s0 = assessment s"
    using assessment_safety [of cfg user_message s] sc by simp
  have det: "determine_active_agents ags user_message (begin_turn now user_message s0) = (active, s3)"
    using assms(2) sc by simp
  have a3: "assessment s3 = assessment s"
    using assessment_determine [of ags user_message "begin_turn now user_message s0"] det
      assessment_begin_turn [of now user_message s0] a0 by simp
  show ?thesis
  proof (cases "dict_index sc ''blocked''")
    case (Inl e)
    then show ?thesis using assms(1) sc a0 by (simp add: process_message_try_def)
  next
    case b: (Inr b)
    show ?thesis
    proof (cases "truthy b")
      case True
      then show ?thesis using assms(1) sc a0 b by (simp add: process_message_try_def)
    next
      case False
      show ?thesis
      proof (cases "combine_agent_responses (process_through_agents ags user_message s3 active)")
        case (Inl e)
        then show ?thesis
          using assms(1) sc b False det a3 by (simp add: process_message_try_def Let_def)
      next
        case (Inr fr)
        obtain final rs' where fr: "fr = (final, rs')" by (cases fr)
        have "finish_turn processing_time final rs' s3 = (res, s')"
          using assms(1) sc b False det Inr fr by (simp add: process_message_try_def Let_def)
        from finish_turn_cases [OF this] show ?thesis
          using a3 Inr fr by auto
      qed
    qed
  qed
qed

lemma set_urgency_effect:
  assumes "set_urgency t s = Inr s1"
  shows "s1 = s \<or> (\<exists>u. map_of t ''urgency_level'' = Some u \<and> u \<noteq> PStr ''unknown''
                       \<and> s1 = s\<lparr>urgency_level := u\<rparr>)"
  using assms
  by (auto simp add: set_urgency_def dict_get_def dict_index_def split: if_splits option.splits)

lemma assessment_set_emergency_type:
  "assessment (set_emergency_type md s) = assessment s"
  by (simp add: set_emergency_type_def assessment_def)

lemma assessment_extend_critical_keywords:
  "assessment (snd (extend_critical_keywords md s)) = assessment s"
  by (simp add: extend_critical_keywords_def assessment_def Let_def split: sum.splits)

lemma set_triage_complete_effect:
  "set_triage_complete md s = s
   \<or> (truthy (dict_get md ''triage_complete'') \<and> set_triage_complete md s = s\<lparr>triage_complete := True\<rparr>)"
  by (simp add: set_triage_complete_def)

lemma update_from_triage_effect:
  assumes "update_from_triage rs s = (eo, s')"
  shows "questions_asked s' = questions_asked s
       \<and> dispatch_attempted s' = dispatch_attempted s
       \<and> dispatch_successful s' = dispatch_successful s
       \<and> (urgency_level s' = urgency_level s
            \<or> (\<exists>t u. map_of rs ''triage'' = Some t \<and> map_of t ''urgency_level'' = Some u
                      \<and> u \<noteq> PStr ''unknown'' \<and> urgency_level s' = u))
       \<and> (triage_complete s' \<longrightarrow> triage_complete s
            \<or> (\<exists>t md. map_of rs ''triage'' = Some t \<and> map_of t ''metadata'' = Some (PDict md)
                       \<and> truthy (dict_get md ''triage_complete'')))"
proof (cases "map_of rs ''triage''")
  case None
  then show ?thesis using assms by (simp add: update_from_triage_def)
next
  case (Some t)
  show ?thesis
  proof (cases "set_urgency t s")
    case (Inl e)
    then show ?thesis using assms Some by (simp add: update_from_triage_def Let_def)
  next
    case (Inr s1)
    from set_urgency_effect [OF Inr]
    have u: "urgency_level s1 = urgency_level s
            \<or> (\<exists>u. map_of t ''urgency_level'' = Some u \<and> u \<noteq> PStr ''unknown'' \<and> urgency_level s1 = u)"
      by auto
    from set_urgency_effect [OF Inr]
    have rest: "questions_asked s1 = questions_asked s \<and> dispatch_attempted s1 = dispatch_attempted s
        \<and> dispatch_successful s1 = dispatch_successful s \<and> triage_complete s1 = triage_complete s"
      by auto
    show ?thesis
    proof (cases "\<exists>md. dict_get_default t ''metadata'' (PDict []) = PDict md")
      case False
      then have "s' = s1"
        using assms Some Inr
        by (cases "dict_get_default t ''metadata'' (PDict [])")
           (simp_all add: update_from_triage_def Let_def)
      then show ?thesis using u rest Some by auto
    next
      case True
      then obtain md where md: "dict_get_default t ''metadata'' (PDict []) = PDict md" by blast
      let ?s2 = "set_emergency_type md s1"
      obtain eo3 s3 where k: "extend_critical_keywords md ?s2 = (eo3, s3)"
        by (cases "extend_critical_keywords md ?s2")
      have a3: "assessment s3 = assessment s1"
        using assessment_extend_critical_keywords [of md ?s2] k
          assessment_set_emergency_type [of md s1] by simp
      have s': "s' = s3 \<or> (eo3 = None \<and> s' = set_triage_complete md s3)"
        using assms Some Inr md k
        by (cases eo3) (simp_all add: update_from_triage_def Let_def)
      have mdt: "truthy (dict_get md ''triage_complete'') \<Longrightarrow> map_of t ''metadata'' = Some (PDict md)"
        using md by (auto simp add: dict_get_default_def dict_get_def split: option.splits)
      have a': "questions_asked s' = questions_asked s1 \<and> dispatch_attempted s' = dispatch_attempted s1
        \<and> dispatch_successful s' = dispatch_successful s1 \<and> urgency_level s' = urgency_level s1
        \<and> (triage_complete s' \<longrightarrow> triage_complete s1 \<or> truthy (dict_get md ''triage_complete''))"
        using s' a3 set_triage_complete_effect [of md s3]
        by (auto simp add: assessment_def)
      show ?thesis
        using a' u rest Some mdt by auto
    qed
  qed
qed

lemma update_from_dispatch_effect:
  assumes "update_from_dispatch rs s = (eo, s')"
  shows "questions_asked s' = questions_asked s
       \<and> urgency_level s' = urgency_level s
       \<and> triage_complete s' = triage_complete s
       \<and> (dispatch_attempted s' \<longrightarrow> dispatch_attempted s
            \<or> (\<exists>t md. map_of rs ''dispatch'' = Some t \<and> map_of t ''metadata'' = Some (PDict md)
                       \<and> truthy (dict_get md ''dispatch_attempted'')))
       \<and> (dispatch_successful s' \<longrightarrow> dispatch_successful s
            \<or> (\<exists>t md. map_of rs ''dispatch'' = Some t \<and> map_of t ''metadata'' = Some (PDict md)
                       \<and> truthy (dict_get md ''dispatch_successful'')))"
proof (cases "map_of rs ''dispatch''")
  case None
  then show ?thesis using assms by (simp add: update_from_dispatch_def)
next
  case (Some t)
  show ?thesis
  proof (cases "\<exists>md. dict_get_default t ''metadata'' (PDict []) = PDict md")
    case False
    then have "s' = s"
      using assms Some
      by (cases "dict_get_default t ''metadata'' (PDict [])")
         (simp_all add: update_from_dispatch_def)
    then show ?thesis by simp
  next
    case True
    then obtain md where md: "dict_get_default t ''metadata'' (PDict []) = PDict md" by blast
    have mdt: "\<And>k. truthy (dict_get md k) \<Longrightarrow> map_of t ''metadata'' = Some (PDict md)"
      using md by (auto simp add: dict_get_default_def dict_get_def split: option.splits)
    have "s' = (let s1 = (if truthy (dict_get md ''dispatch_attempted'')
                          then s\<lparr>dispatch_attempted := True\<rparr> else s)
                in if truthy (dict_get md ''dispatch_successful'')
                   then s1\<lparr>dispatch_successful := True\<rparr> else s1)"
      using assms Some md by (auto simp add: update_from_dispatch_def Let_def)
    then show ?thesis
      using Some mdt by (auto simp add: Let_def split: if_splits)
  qed
qed

lemma update_from_empathy_effect:
  assumes "update_from_empathy rs s = (eo, s')"
  shows "assessment s' = assessment s"
  using assms
  by (auto simp add: update_from_empathy_def assessment_def
           split: if_splits option.splits pyval.splits)

lemma update_session_state_effect:
  assumes "update_session_state s rs = (eo, s')"
  shows "questions_asked s' = questions_asked s
       \<and> (urgency_level s' = urgency_level s
            \<or> (\<exists>t u. map_of rs ''triage'' = Some t \<and> map_of t ''urgency_level'' = Some u
                      \<and> u \<noteq> PStr ''unknown'' \<and> urgency_level s' = u))
       \<and> (triage_complete s' \<longrightarrow> triage_complete s
            \<or> (\<exists>t md. map_of rs ''triage'' = Some t \<and> map_of t ''metadata'' = Some (PDict md)
                       \<and> truthy (dict_get md ''triage_complete'')))
       \<and> (dispatch_attempted s' \<longrightarrow> dispatch_attempted s
            \<or> (\<exists>t md. map_of rs ''dispatch'' = Some t \<and> map_of t ''metadata'' = Some (PDict md)
                       \<and> truthy (dict_get md ''dispatch_attempted'')))
       \<and> (dispatch_successful s' \<longrightarrow> dispatch_successful s
            \<or> (\<exists>t md. map_of rs ''dispatch'' = Some t \<and> map_of t ''metadata'' = Some (PDict md)
                       \<and> truthy (dict_get md ''dispatch_successful'')))"
proof -
  obtain e1 s1 where t: "update_from_triage rs s = (e1, s1)" by (cases "update_from_triage rs s")
  note T = update_from_triage_effect [OF t]
  show ?thesis
  proof (cases e1)
    case (Some e)
    then have "s' = s1" using assms t by (simp add: update_session_state_def)
    then show ?thesis using T by auto
  next
    case None
    obtain e2 s2 where d: "update_from_dispatch rs s1 = (e2, s2)" by (cases "update_from_dispatch rs s1")
    note D = update_from_dispatch_effect [OF d]
    show ?thesis
    proof (cases e2)
      case (Some e)
      then have "s' = s2" using assms t d None by (simp add: update_session_state_def)
      then show ?thesis using T D by auto
    next
      case n2: None
      have "update_from_empathy rs s2 = (eo, s')"
        using assms t d None n2 by (simp add: update_session_state_def)
      from update_from_empathy_effect [OF this]
      have "assessment s' = assessment s2" .
      then show ?thesis using T D by (auto simp add: assessment_def)
    qed
  qed
qed

section \<open>Merged entries and the responders behind them\<close>

lemma dict_get_update_other:
  "k \<noteq> k' \<Longrightarrow> dict_get (AList.update k' v md) k = dict_get md k"
  by (simp add: dict_get_def update_conv')

lemma combine_entries:
  assumes c: "combine_agent_responses rs = Inr (final, rs')" and ne: "rs \<noteq> []"
    and t: "map_of rs' agent_name = Some t"
  shows "\<exists>t0. map_of rs agent_name = Some t0
           \<and> map_of t ''urgency_level'' = map_of t0 ''urgency_level''
           \<and> (\<forall>md. map_of t ''metadata'' = Some (PDict md) \<longrightarrow>
                 (\<exists>md0. map_of t0 ''metadata'' = Some (PDict md0)
                        \<and> (\<forall>k. k \<noteq> ''all_agents'' \<longrightarrow> dict_get md k = dict_get md0 k)))"
proof -
  from combine_Inr [OF c ne] obtain r md0 md' where
    r: "map_of rs (primary_agent rs) = Some r"
    and rmd: "map_of r ''metadata'' = Some (PDict md0)"
    and rs': "rs' = AList.update (primary_agent rs) final rs"
    and same: "\<forall>k. k \<noteq> ''message'' \<and> k \<noteq> ''metadata'' \<longrightarrow> map_of final k = map_of r k"
    and fmd: "map_of final ''metadata'' = Some (PDict (AList.update ''all_agents'' md' md0))"
    by (elim exE conjE)
  show ?thesis
  proof (cases "agent_name = primary_agent rs")
    case True
    have tf: "t = final" using t rs' True by (simp add: update_conv')
    have u: "map_of t ''urgency_level'' = map_of r ''urgency_level''"
      unfolding tf using same [rule_format, of "''urgency_level''"] by simp
    have m: "\<forall>md. map_of t ''metadata'' = Some (PDict md) \<longrightarrow>
                 (\<exists>md0. map_of r ''metadata'' = Some (PDict md0)
                        \<and> (\<forall>k. k \<noteq> ''all_agents'' \<longrightarrow> dict_get md k = dict_get md0 k))"
    proof (intro allI impI)
      fix md assume "map_of t ''metadata'' = Some (PDict md)"
      then have md: "md = AList.update ''all_agents'' md' md0" using fmd tf by simp
      have eq: "\<forall>k. k \<noteq> ''all_agents'' \<longrightarrow> dict_get md k = dict_get md0 k"
        by (simp add: md dict_get_update_other)
      show "\<exists>md0. map_of r ''metadata'' = Some (PDict md0)
                        \<and> (\<forall>k. k \<noteq> ''all_agents'' \<longrightarrow> dict_get md k = dict_get md0 k)"
        by (rule exI [of _ md0]) (intro conjI rmd eq)
    qed
    have r': "map_of rs agent_name = Some r" using r True by simp
    show ?thesis
      by (rule exI [of _ r]) (intro conjI r' u m)
  next
    case False
    then have t0: "map_of rs agent_name = Some t" using t rs' by (simp add: update_conv')
    show ?thesis
      by (rule exI [of _ t]) (simp add: t0)
  qed
qed

lemma fan_in_slot:
  assumes "map_of (process_through_agents ags message s active) agent_name = Some t0"
  shows "agent_process_message (agent_named ags agent_name) message (build_context s message) = Inr t0
         \<or> (\<exists>e. t0 = error_response agent_name e)"
  using assms
  by (auto simp add: fan_in split: if_splits sum.splits)

lemma error_response_urgency:
  "map_of (error_response agent_name e) ''urgency_level'' = None"
  by (simp add: error_response_def)

lemma error_response_metadata:
  "map_of (error_response agent_name e) ''metadata'' = Some (PDict [(''error'', PStr (str_of_error e))])"
  by (simp add: error_response_def)

lemma try_fan_in_nonempty:
  assumes det: "determine_active_agents ags user_message s2 = (active, s3)"
  shows "process_through_agents ags user_message s3 active \<noteq> []"
proof -
  have "set active \<subseteq> set [''empathy'', ''triage'', ''guidance'', ''dispatch''] \<and> active \<noteq> []"
    using determine_active_agents_names [of ags user_message s2] det by simp
  then obtain a where a: "a \<in> set active" "a \<in> set [''empathy'', ''triage'', ''guidance'', ''dispatch'']"
    by (cases active) auto
  show ?thesis by (rule fan_in_nonempty [OF a])
qed

text \<open>A truthy flag in the metadata of a merged entry comes from the responder itself.\<close>

lemma merged_flag:
  assumes c: "combine_agent_responses (process_through_agents ags message s active) = Inr (final, rs')"
    and ne: "process_through_agents ags message s active \<noteq> []"
    and t: "map_of rs' agent_name = Some t"
    and md: "map_of t ''metadata'' = Some (PDict md)"
    and tr: "truthy (dict_get md k)"
    and k: "k \<noteq> ''all_agents''" "k \<noteq> ''error''"
  shows "\<exists>r md0. agent_process_message (agent_named ags agent_name) message (build_context s message) = Inr r
           \<and> map_of r ''metadata'' = Some (PDict md0) \<and> truthy (dict_get md0 k)"
proof -
  from combine_entries [OF c ne t] obtain t0 where
    t0: "map_of (process_through_agents ags message s active) agent_name = Some t0"
    and m: "\<forall>md. map_of t ''metadata'' = Some (PDict md) \<longrightarrow>
                 (\<exists>md0. map_of t0 ''metadata'' = Some (PDict md0)
                        \<and> (\<forall>k. k \<noteq> ''all_agents'' \<longrightarrow> dict_get md k = dict_get md0 k))"
    by (elim exE conjE)
  from m [rule_format, OF md] obtain md0 where
    md0: "map_of t0 ''metadata'' = Some (PDict md0)"
    and eq: "\<forall>k. k \<noteq> ''all_agents'' \<longrightarrow> dict_get md k = dict_get md0 k"
    by (elim exE conjE)
  have tr0: "truthy (dict_get md0 k)" using eq [rule_format, OF k(1)] tr by simp
  from fan_in_slot [OF t0] show ?thesis
  proof
    assume a: "agent_process_message (agent_named ags agent_name) message (build_context s message) = Inr t0"
    show ?thesis
      by (rule exI [of _ t0], rule exI [of _ md0]) (intro conjI a md0 tr0)
  next
    assume "\<exists>e. t0 = error_response agent_name e"
    then obtain e where e: "t0 = error_response agent_name e" by (elim exE)
    have "md0 = [(''error'', PStr (str_of_error e))]"
      using md0 unfolding e error_response_metadata by simp
    then have "dict_get md0 k = PNone" using k(2) by (simp add: dict_get_def)
    then show ?thesis using tr0 by simp
  qed
qed

lemma merged_urgency:
  assumes c: "combine_agent_responses (process_through_agents ags message s active) = Inr (final, rs')"
    and ne: "process_through_agents ags message s active \<noteq> []"
    and t: "map_of rs' agent_name = Some t"
    and u: "map_of t ''urgency_level'' = Some u"
  shows "\<exists>r. agent_process_message (agent_named ags agent_name) message (build_context s message) = Inr r
           \<and> map_of r ''urgency_level'' = Some u"
proof -
  from combine_entries [OF c ne t] obtain t0 where
    t0: "map_of (process_through_agents ags message s active) agent_name = Some t0"
    and eq: "map_of t ''urgency_level'' = map_of t0 ''urgency_level''"
    by (elim exE conjE)
  have u0: "map_of t0 ''urgency_level'' = Some u" using eq u by simp
  from fan_in_slot [OF t0] show ?thesis
  proof
    assume a: "agent_process_message (agent_named ags agent_name) message (build_context s message) = Inr t0"
    show ?thesis by (rule exI [of _ t0]) (intro conjI a u0)
  next
    assume "\<exists>e. t0 = error_response agent_name e"
    then obtain e where e: "t0 = error_response agent_name e" by (elim exE)
    show ?thesis using u0 unfolding e error_response_urgency by simp
  qed
qed

text \<open>
  What one turn can do to the assessment of a session, for any four responders: the
  questions asked stay, the urgency level stays or becomes the level that the triage
  responder returned (never \<open>unknown\<close>), and a progress flag turns true only when the
  metadata of the triage or dispatch responder's own response carries it.
\<close>

lemma try_effect:
  assumes tr: "process_message_try cfg ags now processing_time s user_message = (res, s')"
    and det: "determine_active_agents ags user_message
           (begin_turn now user_message (snd (perform_safety_checks cfg user_message s))) = (active, s3)"
  shows "questions_asked s' = questions_asked s
       \<and> (urgency_level s' = urgency_level s
            \<or> (\<exists>r. agent_process_message (triage_agent ags) user_message (build_context s3 user_message) = Inr r
                      \<and> map_of r ''urgency_level'' = Some (urgency_level s')
                      \<and> urgency_level s' \<noteq> PStr ''unknown''))
       \<and> (triage_complete s' \<longrightarrow> triage_complete s
            \<or> (\<exists>r md. agent_process_message (triage_agent ags) user_message (build_context s3 user_message) = Inr r
                       \<and> map_of r ''metadata'' = Some (PDict md)
                       \<and> truthy (dict_get md ''triage_complete'')))
       \<and> (dispatch_attempted s' \<longrightarrow> dispatch_attempted s
            \<or> (\<exists>r md. agent_process_message (dispatch_agent ags) user_message (build_context s3 user_message) = Inr r
                       \<and> map_of r ''metadata'' = Some (PDict md)
                       \<and> truthy (dict_get md ''dispatch_attempted'')))
       \<and> (dispatch_successful s' \<longrightarrow> dispatch_successful s
            \<or> (\<exists>r md. agent_process_message (dispatch_agent ags) user_message (build_context s3 user_message) = Inr r
                       \<and> map_of r ''metadata'' = Some (PDict md)
                       \<and> truthy (dict_get md ''dispatch_successful'')))"
proof -
  let ?rs = "process_through_agents ags user_message s3 active"
  let ?T = "agent_process_message (triage_agent ags) user_message (build_context s3 user_message)"
  let ?D = "agent_process_message (dispatch_agent ags) user_message (build_context s3 user_message)"
  have nT: "agent_named ags ''triage'' = triage_agent ags" by (simp add: agent_named_def)
  have nD: "agent_named ags ''dispatch'' = dispatch_agent ags" by (simp add: agent_named_def)
  from try_cases [OF tr det]
  show ?thesis
  proof
    assume "assessment s' = assessment s"
    then show ?thesis by (simp add: assessment_def)
  next
    assume "\<exists>final rs' s6 eo. combine_agent_responses ?rs = Inr (final, rs')
              \<and> assessment s6 = assessment s \<and> update_session_state s6 rs' = (eo, s')"
    then obtain final rs' s6 eo where c: "combine_agent_responses ?rs = Inr (final, rs')"
      and a6: "assessment s6 = assessment s" and u: "update_session_state s6 rs' = (eo, s')"
      by (elim exE conjE)
    have ne: "?rs \<noteq> []" by (rule try_fan_in_nonempty [OF det])
    have s6: "questions_asked s6 = questions_asked s" "urgency_level s6 = urgency_level s"
      "triage_complete s6 = triage_complete s" "dispatch_attempted s6 = dispatch_attempted s"
      "dispatch_successful s6 = dispatch_successful s"
      using a6 by (simp_all add: assessment_def)
    note U = update_session_state_effect [OF u]
    have q: "questions_asked s' = questions_asked s" using U s6 by simp
    have ul: "urgency_level s' = urgency_level s
            \<or> (\<exists>r. ?T = Inr r \<and> map_of r ''urgency_level'' = Some (urgency_level s')
                      \<and> urgency_level s' \<noteq> PStr ''unknown'')"
    proof -
      from U have "urgency_level s' = urgency_level s6
            \<or> (\<exists>t u. map_of rs' ''triage'' = Some t \<and> map_of t ''urgency_level'' = Some u
                      \<and> u \<noteq> PStr ''unknown'' \<and> urgency_level s' = u)"
        by (elim conjE)
      then show ?thesis
      proof
        assume "urgency_level s' = urgency_level s6"
        then show ?thesis using s6 by simp
      next
        assume "\<exists>t u. map_of rs' ''triage'' = Some t \<and> map_of t ''urgency_level'' = Some u
                      \<and> u \<noteq> PStr ''unknown'' \<and> urgency_level s' = u"
        then obtain t v where t: "map_of rs' ''triage'' = Some t"
          and v: "map_of t ''urgency_level'' = Some v" "v \<noteq> PStr ''unknown''" "urgency_level s' = v"
          by (elim exE conjE)
        from merged_urgency [OF c ne t v(1)] obtain r where
          r: "?T = Inr r" "map_of r ''urgency_level'' = Some v"
          unfolding nT by (elim exE conjE)
        have "\<exists>r. ?T = Inr r \<and> map_of r ''urgency_level'' = Some (urgency_level s')
                      \<and> urgency_level s' \<noteq> PStr ''unknown''"
          by (rule exI [of _ r]) (simp add: r v)
        then show ?thesis by (rule disjI2)
      qed
    qed
    have flag: "\<And>old new agent_name k.
        (new \<longrightarrow> old \<or> (\<exists>t md. map_of rs' agent_name = Some t \<and> map_of t ''metadata'' = Some (PDict md)
                       \<and> truthy (dict_get md k)))
        \<Longrightarrow> k \<noteq> ''all_agents'' \<Longrightarrow> k \<noteq> ''error''
        \<Longrightarrow> new \<longrightarrow> old \<or> (\<exists>r md. agent_process_message (agent_named ags agent_name) user_message (build_context s3 user_message) = Inr r
                       \<and> map_of r ''metadata'' = Some (PDict md) \<and> truthy (dict_get md k))"
    proof (intro impI)
      fix old new :: bool and agent_name k
      assume h: "new \<longrightarrow> old \<or> (\<exists>t md. map_of rs' agent_name = Some t \<and> map_of t ''metadata'' = Some (PDict md)
                       \<and> truthy (dict_get md k))"
        and k: "k \<noteq> ''all_agents''" "k \<noteq> ''error''" and new: new
      from h new have "old \<or> (\<exists>t md. map_of rs' agent_name = Some t \<and> map_of t ''metadata'' = Some (PDict md)
                       \<and> truthy (dict_get md k))" by simp
      then show "old \<or> (\<exists>r md. agent_process_message (agent_named ags agent_name) user_message (build_context s3 user_message) = Inr r
                       \<and> map_of r ''metadata'' = Some (PDict md) \<and> truthy (dict_get md k))"
      proof
        assume old then show ?thesis by (rule disjI1)
      next
        assume "\<exists>t md. map_of rs' agent_name = Some t \<and> map_of t ''metadata'' = Some (PDict md)
                       \<and> truthy (dict_get md k)"
        then obtain t md where t: "map_of rs' agent_name = Some t"
          and md: "map_of t ''metadata'' = Some (PDict md)" and tr: "truthy (dict_get md k)"
          by (elim exE conjE)
        show ?thesis
          by (rule disjI2) (rule merged_flag [OF c ne t md tr k])
      qed
    qed
    have tc: "triage_complete s' \<longrightarrow> triage_complete s
            \<or> (\<exists>r md. ?T = Inr r \<and> map_of r ''metadata'' = Some (PDict md)
                       \<and> truthy (dict_get md ''triage_complete''))"
    proof -
      from U have "triage_complete s' \<longrightarrow> triage_complete s6
            \<or> (\<exists>t md. map_of rs' ''triage'' = Some t \<and> map_of t ''metadata'' = Some (PDict md)
                       \<and> truthy (dict_get md ''triage_complete''))"
        by (elim conjE)
      from flag [OF this] show ?thesis unfolding nT s6 by simp
    qed
    have da: "dispatch_attempted s' \<longrightarrow> dispatch_attempted s
            \<or> (\<exists>r md. ?D = Inr r \<and> map_of r ''metadata'' = Some (PDict md)
                       \<and> truthy (dict_get md ''dispatch_attempted''))"
    proof -
      from U have "dispatch_attempted s' \<longrightarrow> dispatch_attempted s6
            \<or> (\<exists>t md. map_of rs' ''dispatch'' = Some t \<and> map_of t ''metadata'' = Some (PDict md)
                       \<and> truthy (dict_get md ''dispatch_attempted''))"
        by (elim conjE)
      from flag [OF this] show ?thesis unfolding nD s6 by simp
    qed
    have ds: "dispatch_successful s' \<longrightarrow> dispatch_successful s
            \<or> (\<exists>r md. ?D = Inr r \<and> map_of r ''metadata'' = Some (PDict md)
                       \<and> truthy (dict_get md ''dispatch_successful''))"
    proof -
      from U have "dispatch_successful s' \<longrightarrow> dispatch_successful s6
            \<or> (\<exists>t md. map_of rs' ''dispatch'' = Some t \<and> map_of t ''metadata'' = Some (PDict md)
                       \<and> truthy (dict_get md ''dispatch_successful''))"
        by (elim conjE)
      from flag [OF this] show ?thesis unfolding nD s6 by simp
    qed
    show ?thesis by (intro conjI q ul tc da ds)
  qed
qed

section \<open>A responder that fails\<close>

lemma history_begin_turn: "conversation_history (begin_turn now message s) \<noteq> []"
  by (simp add: begin_turn_def Let_def)

lemma history_determine:
  "conversation_history (snd (determine_active_agents ags message s)) = conversation_history s"
  by (simp add: determine_active_agents_def Let_def)

lemma turn_number_begin_turn: "turn_number (begin_turn now message s) = turn_number s + 1"
  by (simp add: begin_turn_def Let_def)

lemma turn_number_determine:
  "turn_number (snd (determine_active_agents ags message s)) = turn_number s"
  by (simp add: determine_active_agents_def Let_def)

lemma finish_turn_reaches_update:
  assumes h: "conversation_history s \<noteq> []"
    and m: "map_of final ''message'' = Some m"
    and t: "map_of final ''agent_type'' = Some t"
  shows "\<exists>s6. assessment s6 = assessment s \<and> turn_number s6 = turn_number s
            \<and> finish_turn processing_time final rs s =
                (case update_session_state s6 rs of
                   (Some e, s7) \<Rightarrow> (Inl e, s7)
                 | (None, s7) \<Rightarrow> (Inr final, s7))"
proof -
  let ?s1 = "s\<lparr>conversation_history := butlast (conversation_history s) @
               [AList.update ''agent_response'' m (last (conversation_history s))]\<rparr>"
  let ?s2 = "?s1\<lparr>conversation_history := butlast (conversation_history ?s1) @
               [AList.update ''agent_type'' t (last (conversation_history ?s1))]\<rparr>"
  let ?s6 = "?s2\<lparr>response_times := response_times ?s2 @ [processing_time]\<rparr>"
  have s1: "set_last_turn ''agent_response'' m s = Inr ?s1"
    using h by (simp add: set_last_turn_def)
  have s2: "set_last_turn ''agent_type'' t ?s1 = Inr ?s2"
    by (simp add: set_last_turn_def)
  have f: "finish_turn processing_time final rs s =
                (case update_session_state ?s6 rs of
                   (Some e, s7) \<Rightarrow> (Inl e, s7)
                 | (None, s7) \<Rightarrow> (Inr final, s7))"
    using h by (simp add: finish_turn_def dict_index_def m t set_last_turn_def Let_def)
  have a: "assessment ?s6 = assessment s" by (simp add: assessment_def)
  have n: "turn_number ?s6 = turn_number s" by simp
  show ?thesis by (rule exI [of _ ?s6]) (intro conjI a n f)
qed

lemma error_response_well_formed:
  "well_formed (error_response agent_name e) \<and> map_of (error_response agent_name e) ''agent_type'' \<noteq> None"
  by (simp add: well_formed_def error_response_def)

lemma fan_in_well_formed:
  assumes wf: "\<forall>agent_name r. agent_name \<in> set active \<longrightarrow>
                 agent_process_message (agent_named ags agent_name) message (build_context s message) = Inr r \<longrightarrow>
                 well_formed r \<and> map_of r ''agent_type'' \<noteq> None"
    and t: "map_of (process_through_agents ags message s active) agent_name = Some t"
  shows "well_formed t \<and> map_of t ''agent_type'' \<noteq> None"
proof -
  have mem: "agent_name \<in> set active"
    using t by (auto simp add: fan_in split: if_splits)
  from fan_in_slot [OF t] show ?thesis
  proof
    assume "agent_process_message (agent_named ags agent_name) message (build_context s message) = Inr t"
    then show ?thesis using wf [rule_format, OF mem] by simp
  next
    assume "\<exists>e. t = error_response agent_name e"
    then obtain e where "t = error_response agent_name e" by (elim exE)
    then show ?thesis using error_response_well_formed by simp
  qed
qed

lemma same_keys_lookup:
  assumes "map fst (a :: pydict) = map fst b"
  shows "(map_of a k = None) = (map_of b k = None)"
proof -
  have "(k \<in> set (map fst a)) = (k \<in> set (map fst b))" using assms by simp
  then show ?thesis by (simp add: map_of_eq_None_iff)
qed

lemma combine_well_formed:
  assumes ne: "rs \<noteq> []"
    and wf0: "\<forall>agent_name t. map_of rs agent_name = Some t \<longrightarrow>
               well_formed t \<and> map_of t ''agent_type'' \<noteq> None"
  shows "\<exists>final. combine_agent_responses rs = Inr (final, AList.update (primary_agent rs) final rs)
           \<and> map_of final ''message'' \<noteq> None \<and> map_of final ''agent_type'' \<noteq> None
           \<and> map fst final = map fst (the (map_of rs (primary_agent rs)))"
proof -
  have wf: "\<And>agent_name t. map_of rs agent_name = Some t \<Longrightarrow>
               well_formed t \<and> map_of t ''agent_type'' \<noteq> None"
    using wf0 by simp
  obtain r where r: "map_of rs (primary_agent rs) = Some r"
    using map_of_primary [OF ne] by auto
  obtain b md where b: "map_of r ''message'' = Some (PStr b)"
    and md: "map_of r ''metadata'' = Some (PDict md)"
    using wf [OF r] by (auto simp add: well_formed_iff)
  have ty: "map_of r ''agent_type'' \<noteq> None" using wf [OF r] by simp
  let ?pre = "primary_agent rs \<noteq> ''empathy'' \<and> map_of rs ''empathy'' \<noteq> None"
  have "\<exists>a. ?pre \<longrightarrow> map_of (the (map_of rs ''empathy'')) ''message'' = Some (PStr a)"
  proof (cases "map_of rs ''empathy''")
    case None
    then show ?thesis by simp
  next
    case (Some e)
    then obtain a where "map_of e ''message'' = Some (PStr a)"
      using wf [OF Some] by (auto simp add: well_formed_iff)
    then show ?thesis using Some by auto
  qed
  then obtain a where a: "?pre \<longrightarrow> map_of (the (map_of rs ''empathy'')) ''message'' = Some (PStr a)"
    by (elim exE)
  let ?r' = "if ?pre then AList.update ''message'' (PStr (a @ '' '' @ b)) r else r"
  let ?all = "PDict (map (\<lambda>(agent_type, response).
                 (agent_type @ ''_metadata'', dict_get_default response ''metadata'' (PDict []))) rs)"
  let ?final = "AList.update ''metadata'' (PDict (AList.update ''all_agents'' ?all md)) ?r'"
  have c: "combine_agent_responses rs = Inr (?final, AList.update (primary_agent rs) ?final rs)"
    using combine_exact [OF ne r md b a] by (simp add: Let_def)
  have keys: "map fst ?final = map fst r"
    using b md by (simp add: update_keys_present update_conv')
  have m: "map_of ?final ''message'' \<noteq> None"
    using same_keys_lookup [OF keys, of "''message''"] b by simp
  have t: "map_of ?final ''agent_type'' \<noteq> None"
    using same_keys_lookup [OF keys, of "''agent_type''"] ty by simp
  have keys': "map fst ?final = map fst (the (map_of rs (primary_agent rs)))"
    using keys r by simp
  show ?thesis by (rule exI [of _ ?final]) (intro conjI c m t keys')
qed

lemma try_failed_triage_exact:
  assumes safe: "perform_safety_checks cfg user_message s = ([(''blocked'', PBool False)], s0)"
    and det: "determine_active_agents ags user_message (begin_turn now user_message s0) = (active, s3)"
    and sel: "''triage'' \<in> set active"
    and fail: "agent_process_message (triage_agent ags) user_message (build_context s3 user_message) = Inl e"
    and wf: "\<forall>agent_name r. agent_name \<in> set active \<longrightarrow>
                 agent_process_message (agent_named ags agent_name) user_message (build_context s3 user_message) = Inr r \<longrightarrow>
                 well_formed r \<and> map_of r ''agent_type'' \<noteq> None"
  shows "\<exists>s'. process_message_try cfg ags now processing_time s user_message =
               (Inl (KeyError ''urgency_level''), s')
             \<and> assessment s' = assessment s \<and> turn_number s' = turn_number s0 + 1"
proof -
  let ?rs = "process_through_agents ags user_message s3 active"
  have ne: "?rs \<noteq> []" by (rule try_fan_in_nonempty [OF det])
  have wf': "\<forall>agent_name t. map_of ?rs agent_name = Some t \<longrightarrow>
               well_formed t \<and> map_of t ''agent_type'' \<noteq> None"
    by (intro allI impI) (rule fan_in_well_formed [OF wf])
  from combine_well_formed [OF ne wf'] obtain final where
    c: "combine_agent_responses ?rs = Inr (final, AList.update (primary_agent ?rs) final ?rs)"
    and m: "map_of final ''message'' \<noteq> None" and t: "map_of final ''agent_type'' \<noteq> None"
    and keys: "map fst final = map fst (the (map_of ?rs (primary_agent ?rs)))"
    by (elim exE conjE)
  let ?rs' = "AList.update (primary_agent ?rs) final ?rs"
  obtain mv tv where mv: "map_of final ''message'' = Some mv" and tv: "map_of final ''agent_type'' = Some tv"
    using m t by auto
  have s3: "s3 = snd (determine_active_agents ags user_message (begin_turn now user_message s0))"
    using det by simp
  have h: "conversation_history s3 \<noteq> []"
    unfolding s3 by (simp add: history_determine history_begin_turn)
  from finish_turn_reaches_update [OF h mv tv, of processing_time ?rs'] obtain s6 where
    a6: "assessment s6 = assessment s3" and n6: "turn_number s6 = turn_number s3"
    and f: "finish_turn processing_time final ?rs' s3 =
                (case update_session_state s6 ?rs' of
                   (Some e, s7) \<Rightarrow> (Inl e, s7)
                 | (None, s7) \<Rightarrow> (Inr final, s7))"
    by (elim exE conjE)
  have slot: "map_of ?rs ''triage'' = Some (error_response ''triage'' e)"
    using sel fail by (simp add: fan_in agent_named_def)
  have "\<exists>t. map_of ?rs' ''triage'' = Some t \<and> map_of t ''urgency_level'' = None"
  proof (cases "primary_agent ?rs = ''triage''")
    case True
    then have "map fst final = [''message'', ''agent_type'', ''confidence'', ''metadata'']"
      using keys slot by (simp add: error_response_def)
    then have "''urgency_level'' \<notin> set (map fst final)" by simp
    then have "map_of final ''urgency_level'' = None" by (simp add: map_of_eq_None_iff)
    then show ?thesis using True by (simp add: update_conv')
  next
    case False
    then have "map_of ?rs' ''triage'' = Some (error_response ''triage'' e)"
      using slot by (simp add: update_conv')
    then show ?thesis by (simp add: error_response_def)
  qed
  then obtain t where t: "map_of ?rs' ''triage'' = Some t" "map_of t ''urgency_level'' = None"
    by (elim exE conjE)
  have u: "update_session_state s6 ?rs' = (Some (KeyError ''urgency_level''), s6)"
    by (rule update_session_state_no_urgency [OF t])
  have f': "finish_turn processing_time final ?rs' s3 = (Inl (KeyError ''urgency_level''), s6)"
    using f u by simp
  have tr: "process_message_try cfg ags now processing_time s user_message =
               (Inl (KeyError ''urgency_level''), s6)"
    using safe det c f' by (simp add: process_message_try_def dict_index_def Let_def)
  have a0: "assessment s0 = assessment s"
    using assessment_safety [of cfg user_message s] safe by simp
  have a3: "assessment s3 = assessment s"
    unfolding s3 using a0 by (simp add: assessment_determine assessment_begin_turn)
  have n3: "turn_number s3 = turn_number s0 + 1"
    unfolding s3 by (simp add: turn_number_determine turn_number_begin_turn)
  show ?thesis
    by (rule exI [of _ s6]) (simp add: tr a6 a3 n6 n3)
qed

end
